theory Spec2Isabelle
  imports Complex_Main "HOL-Library.Multiset"
begin

section \<open>Data model (quiz/models.py)\<close>

text \<open>
  Rows are records, tables are lists of rows in creation order, primary and foreign keys
  are natural numbers. Only the columns read or written by the quiz views are kept
  (titles, descriptions and option texts are dropped). Python floats are modelled by
  exact reals and timestamps by natural numbers.
\<close>

record Chapter =
  chapter_id :: nat
  chapter_book :: nat

record Question =
  question_id :: nat
  question_chapter :: nat
  correct_answer :: string
  difficulty :: string

record Quiz =
  quiz_id :: nat
  quiz_user :: nat
  quiz_chapter :: "nat option"
  quiz_book :: "nat option"
  start_time :: nat
  end_time :: "nat option"
  duration_minutes :: nat
  score :: "real option"
  total_questions :: nat
  correct_answers :: nat
  is_completed :: bool

text \<open>QuizAnswer has no uniqueness constraint on (quiz, question): a list of rows.\<close>

record QuizAnswer =
  answer_quiz :: nat
  answer_question :: nat
  user_answer :: string
  is_correct :: bool

datatype status = unattempted | attempted | marked_for_review | answered_and_marked

text \<open>
  QuizQuestionStatus is \<open>unique_together = ['quiz', 'question']\<close>: a map from the pair.
\<close>

record database =
  books :: "nat list"
  chapters :: "Chapter list"
  questions :: "Question list"
  quizzes :: "Quiz list"
  answers :: "QuizAnswer list"
  question_statuses :: "nat \<times> nat \<Rightarrow> status option"

text \<open>
  The per-browser session store: the keys \<open>quiz_<id>_questions\<close> and
  \<open>quiz_<id>_current\<close>, indexed by the quiz id.
\<close>

record session =
  quiz_questions :: "nat \<Rightarrow> nat list option"
  quiz_current :: "nat \<Rightarrow> int option"

datatype error = Http404 | ValueError | IndexError | KeyError | MultipleObjectsReturned

section \<open>Scoring (Quiz.get_score_breakdown, views.quiz_results)\<close>

record score_breakdown =
  correct_count :: nat
  wrong_count :: nat
  attempted_count :: nat
  unattempted_count :: int
  raw_score :: real
  max_possible :: real
  percentage :: real

text \<open>\<open>quiz.answers.all()\<close>: the reverse relation of QuizAnswer.quiz.\<close>

definition quiz_answers :: "database \<Rightarrow> Quiz \<Rightarrow> QuizAnswer list" where
  "quiz_answers db self = filter (\<lambda>a. answer_quiz a = quiz_id self) (answers db)"

definition get_score_breakdown :: "database \<Rightarrow> Quiz \<Rightarrow> score_breakdown" where
  "get_score_breakdown db self =
     (let ans = quiz_answers db self;
          correct = length (filter (\<lambda>a. is_correct a) ans);
          wrong = length (filter (\<lambda>a. \<not> is_correct a) ans);
          attempted_n = length ans;
          unattempted_n = int (total_questions self) - int attempted_n;
          raw = real correct * 1 + real wrong * (- 0.25) + real_of_int unattempted_n * 0;
          max_p = real (total_questions self) * 1
      in \<lparr> correct_count = correct,
           wrong_count = wrong,
           attempted_count = attempted_n,
           unattempted_count = unattempted_n,
           raw_score = raw,
           max_possible = max_p,
           percentage = (if max_p > 0 then max 0 (raw / max_p * 100) else 0) \<rparr>)"

text \<open>\<open>quiz.save()\<close>: an UPDATE of the row with the object's primary key.\<close>

definition save_quiz :: "Quiz \<Rightarrow> Quiz list \<Rightarrow> Quiz list" where
  "save_quiz q qs = map (\<lambda>r. if quiz_id r = quiz_id q then q else r) qs"

text \<open>
  Lines 444-473 of views.py: the branch of \<open>quiz_results\<close> taken when the quiz is not
  completed. It returns the database, the session and the updated quiz object.
\<close>

definition seal :: "database \<Rightarrow> session \<Rightarrow> Quiz \<Rightarrow> nat \<Rightarrow> database \<times> session \<times> Quiz" where
  "seal db sess q now =
     (let ans = quiz_answers db q;
          correct = length (filter (\<lambda>a. is_correct a) ans);
          wrong = length (filter (\<lambda>a. \<not> is_correct a) ans);
          total_attempted = length ans;
          total = total_questions q;
          unattempted_questions = int total - int total_attempted;
          raw = real correct * 1 + real wrong * (- 0.25) + real_of_int unattempted_questions * 0;
          max_possible_score = real total * 1;
          percentage_score =
            (if max_possible_score > 0 then max 0 (raw / max_possible_score * 100) else 0);
          q' = q\<lparr> end_time := Some now, score := Some percentage_score,
                  correct_answers := correct, is_completed := True \<rparr>
      in (db\<lparr> quizzes := save_quiz q' (quizzes db) \<rparr>,
          sess\<lparr> quiz_questions := (quiz_questions sess)(quiz_id q := None),
                quiz_current := (quiz_current sess)(quiz_id q := None) \<rparr>,
          q'))"

record results_context =
  ctx_quiz :: Quiz
  ctx_answers :: "QuizAnswer list"
  ctx_correct_count :: nat
  ctx_wrong_count :: nat
  ctx_attempted_count :: nat
  ctx_unattempted_count :: int
  ctx_raw_score :: real
  ctx_max_possible_score :: real

text \<open>Lines 475-495 of views.py: the statistics recalculated for display.\<close>

definition results_display :: "database \<Rightarrow> Quiz \<Rightarrow> results_context" where
  "results_display db q =
     (let ans = quiz_answers db q;
          correct = length (filter (\<lambda>a. is_correct a) ans);
          wrong = length (filter (\<lambda>a. \<not> is_correct a) ans);
          attempted_n = length ans;
          unattempted_n = int (total_questions q) - int attempted_n;
          raw = real correct * 1 + real wrong * (- 0.25) + real_of_int unattempted_n * 0;
          max_p = real (total_questions q) * 1
      in \<lparr> ctx_quiz = q,
           ctx_answers = ans,
           ctx_correct_count = correct,
           ctx_wrong_count = wrong,
           ctx_attempted_count = attempted_n,
           ctx_unattempted_count = unattempted_n,
           ctx_raw_score = raw,
           ctx_max_possible_score = max_p \<rparr>)"

text \<open>
  \<open>quiz_results(request, quiz_id)\<close>. The arguments are the database, the session of the
  request, the authenticated user, the quiz id of the URL and the clock
  (\<open>timezone.now()\<close>). The result is the state left behind and either the exception that
  escaped the view or the rendered context.
\<close>

definition quiz_results ::
  "database \<Rightarrow> session \<Rightarrow> nat \<Rightarrow> nat \<Rightarrow> nat \<Rightarrow> (database \<times> session) \<times> (error + results_context)" where
  "quiz_results db sess user qid now =
     (case find (\<lambda>q. quiz_id q = qid \<and> quiz_user q = user) (quizzes db) of
        None \<Rightarrow> ((db, sess), Inl Http404)
      | Some q \<Rightarrow>
          (if \<not> is_completed q then
             (case seal db sess q now of
                (db', sess', q') \<Rightarrow> ((db', sess'), Inr (results_display db' q')))
           else ((db, sess), Inr (results_display db q))))"

section \<open>Strings\<close>

text \<open>
  A Python string is represented by the list of the bytes of its UTF-8 encoding, which is
  faithful for the equality tests of the views. \<open>str.strip()\<close> and \<open>str.lower()\<close> follow
  the Unicode tables of the interpreter (blanks and cased letters beyond ASCII included),
  which are not part of the repository: the two functions are parameters of the model, and
  every definition that calls them takes them as the argument \<open>py\<close>.
\<close>

record python =
  str_strip :: "string \<Rightarrow> string"
  str_lower :: "string \<Rightarrow> string"

section \<open>Taking a quiz (views.take_quiz)\<close>

datatype message =
    Question_marked_for_review
  | Answer_cleared_successfully
  | No_answer_to_clear
  | Please_provide_an_answer
  | Only_questions_available nat

text \<open>
  A POST parameter read with \<open>int(...)\<close>: missing, not a decimal integer, or an integer.
\<close>

datatype post_int = Absent | Malformed | Posted int

record post_data =
  post_action :: "string option"
  post_answer :: "string option"
  post_question_index :: post_int

datatype request = GET | POST post_data

record take_context =
  tc_quiz :: Quiz
  tc_question :: Question
  tc_question_number :: int
  tc_total_questions :: nat
  tc_progress :: real
  tc_question_ids :: "nat list"
  tc_current_index :: int
  tc_question_statuses :: "nat \<Rightarrow> status option"
  tc_attempted_count :: nat
  tc_marked_count :: nat
  tc_unattempted_count :: int
  tc_current_answer :: "QuizAnswer option"
  tc_messages :: "message list"

datatype take_response =
    Redirect_quiz_results nat
  | Redirect_take_quiz nat
  | Render_take_quiz take_context

text \<open>\<open>question_ids[current_index]\<close>: a negative index counts from the end of the list.\<close>

definition py_index :: "'a list \<Rightarrow> int \<Rightarrow> error + 'a" where
  "py_index xs i =
     (if 0 \<le> i \<and> i < int (length xs) then Inr (xs ! nat i)
      else if i < 0 \<and> - int (length xs) \<le> i then Inr (xs ! nat (int (length xs) + i))
      else Inl IndexError)"

text \<open>
  \<open>QuizAnswer.objects.get(quiz=quiz, question=question)\<close>: \<open>Inr None\<close> stands for
  \<open>DoesNotExist\<close>, which every caller catches.
\<close>

definition get_answer :: "database \<Rightarrow> nat \<Rightarrow> nat \<Rightarrow> error + QuizAnswer option" where
  "get_answer db qz qn =
     (case filter (\<lambda>a. answer_quiz a = qz \<and> answer_question a = qn) (answers db) of
        [] \<Rightarrow> Inr None
      | [a] \<Rightarrow> Inr (Some a)
      | _ \<Rightarrow> Inl MultipleObjectsReturned)"

definition set_status :: "database \<Rightarrow> nat \<Rightarrow> nat \<Rightarrow> status \<Rightarrow> database" where
  "set_status db qz qn s = db\<lparr> question_statuses := (question_statuses db)((qz, qn) \<mapsto> s) \<rparr>"

text \<open>Lines 304-316: the status update of the action \<open>mark_for_review\<close>.\<close>

definition mark_status :: "database \<Rightarrow> nat \<Rightarrow> nat \<Rightarrow> database" where
  "mark_status db qz qn =
     (case question_statuses db (qz, qn) of
        None \<Rightarrow> set_status db qz qn marked_for_review
      | Some s \<Rightarrow>
          (if s = attempted then set_status db qz qn answered_and_marked
           else set_status db qz qn marked_for_review))"

text \<open>
  Lines 319-343: the action \<open>clear_answer\<close>. The answer row is deleted when there is one,
  then the status is updated; the message tells which of the two happened.
\<close>

definition clear_status :: "database \<Rightarrow> nat \<Rightarrow> nat \<Rightarrow> database" where
  "clear_status db qz qn =
     (case question_statuses db (qz, qn) of
        Some s \<Rightarrow>
          (if s = attempted \<or> s = answered_and_marked then
             (if s = answered_and_marked then set_status db qz qn marked_for_review
              else set_status db qz qn unattempted)
           else db)
      | None \<Rightarrow> set_status db qz qn unattempted)"

definition clear_answer :: "database \<Rightarrow> nat \<Rightarrow> nat \<Rightarrow> error + database \<times> message" where
  "clear_answer db qz qn =
     (case get_answer db qz qn of
        Inl e \<Rightarrow> Inl e
      | Inr (Some a) \<Rightarrow>
          Inr (clear_status
                 (db\<lparr> answers := filter (\<lambda>a. \<not> (answer_quiz a = qz \<and> answer_question a = qn))
                                    (answers db) \<rparr>) qz qn,
               Answer_cleared_successfully)
      | Inr None \<Rightarrow> Inr (clear_status db qz qn, No_answer_to_clear))"

text \<open>Lines 345-374: the answer is stored or overwritten, then the status is updated.\<close>

definition submit_status :: "database \<Rightarrow> nat \<Rightarrow> nat \<Rightarrow> database" where
  "submit_status db qz qn =
     (case question_statuses db (qz, qn) of
        None \<Rightarrow> set_status db qz qn attempted
      | Some s \<Rightarrow>
          (if s = marked_for_review then set_status db qz qn answered_and_marked
           else set_status db qz qn attempted))"

definition submit_answer ::
  "python \<Rightarrow> database \<Rightarrow> nat \<Rightarrow> Question \<Rightarrow> string \<Rightarrow> error + database" where
  "submit_answer py db qz qn ua =
     (let correct = (str_lower py ua = str_lower py (correct_answer qn)) in
      case get_answer db qz (question_id qn) of
        Inl e \<Rightarrow> Inl e
      | Inr None \<Rightarrow>
          Inr (submit_status
                 (db\<lparr> answers := answers db @
                        [\<lparr> answer_quiz = qz, answer_question = question_id qn,
                           user_answer = ua, is_correct = correct \<rparr>] \<rparr>)
                 qz (question_id qn))
      | Inr (Some _) \<Rightarrow>
          Inr (submit_status
                 (db\<lparr> answers :=
                        map (\<lambda>a. if answer_quiz a = qz \<and> answer_question a = question_id qn
                                 then a\<lparr> user_answer := ua, is_correct := correct \<rparr> else a)
                            (answers db) \<rparr>)
                 qz (question_id qn)))"

text \<open>Lines 395-436: the context of the rendered question page.\<close>

definition render_take_quiz ::
  "database \<Rightarrow> Quiz \<Rightarrow> Question \<Rightarrow> nat list \<Rightarrow> int \<Rightarrow> message list \<Rightarrow> error + take_response" where
  "render_take_quiz db qz qn question_ids current_index msgs =
     (let statuses = (\<lambda>k. if k \<in> set question_ids then question_statuses db (quiz_id qz, k)
                           else None);
          answered_question_ids =
            remdups (filter (\<lambda>k. k \<in> set question_ids)
                            (map answer_question (quiz_answers db qz)));
          total = length question_ids;
          attempted_n = length answered_question_ids;
          marked_n = length (filter (\<lambda>k. statuses k = Some marked_for_review \<or>
                                          statuses k = Some answered_and_marked)
                                    (remdups question_ids));
          unattempted_n = int total - int attempted_n;
          progress = real_of_int (current_index + 1) / real (length question_ids) * 100
      in case get_answer db (quiz_id qz) (question_id qn) of
           Inl e \<Rightarrow> Inl e
         | Inr current \<Rightarrow>
             Inr (Render_take_quiz
                    \<lparr> tc_quiz = qz, tc_question = qn,
                      tc_question_number = current_index + 1,
                      tc_total_questions = length question_ids,
                      tc_progress = progress,
                      tc_question_ids = question_ids,
                      tc_current_index = current_index,
                      tc_question_statuses = statuses,
                      tc_attempted_count = attempted_n,
                      tc_marked_count = marked_n,
                      tc_unattempted_count = unattempted_n,
                      tc_current_answer = current,
                      tc_messages = msgs \<rparr>))"

text \<open>\<open>int(request.POST.get('question_index', 0))\<close>.\<close>

definition question_index_param :: "post_int \<Rightarrow> error + int" where
  "question_index_param p =
     (case p of Absent \<Rightarrow> Inr 0 | Malformed \<Rightarrow> Inl ValueError | Posted i \<Rightarrow> Inr i)"

text \<open>
  \<open>request.POST.get('action', 'next')\<close> and \<open>request.POST.get('answer', '').strip()\<close>.
\<close>

definition posted_action :: "post_data \<Rightarrow> string" where
  "posted_action post = (case post_action post of None \<Rightarrow> ''next'' | Some a \<Rightarrow> a)"

definition posted_answer :: "python \<Rightarrow> post_data \<Rightarrow> string" where
  "posted_answer py post =
     str_strip py (case post_answer post of None \<Rightarrow> [] | Some a \<Rightarrow> a)"

text \<open>Lines 300-393: the POST branch, for the current question of the session.\<close>

definition handle_post ::
  "python \<Rightarrow> database \<Rightarrow> session \<Rightarrow> Quiz \<Rightarrow> Question \<Rightarrow> nat list \<Rightarrow> int \<Rightarrow> post_data
     \<Rightarrow> (database \<times> session) \<times> (error + take_response)" where
  "handle_post py db sess qz qn question_ids current_index post =
     (let action = posted_action post;
          ua = posted_answer py post;
          late = (if ua = [] \<and> action = ''next'' then [Please_provide_an_answer] else [])
      in
      if action = ''mark_for_review'' then
        (let db1 = mark_status db (quiz_id qz) (question_id qn)
         in ((db1, sess),
             render_take_quiz db1 qz qn question_ids current_index
               (Question_marked_for_review # late)))
      else if action = ''clear_answer'' then
        (case clear_answer db (quiz_id qz) (question_id qn) of
           Inl e \<Rightarrow> ((db, sess), Inl e)
         | Inr (db1, msg) \<Rightarrow>
             ((db1, sess), render_take_quiz db1 qz qn question_ids current_index (msg # late)))
      else if action = ''next'' \<and> ua \<noteq> [] then
        (case submit_answer py db (quiz_id qz) qn ua of
           Inl e \<Rightarrow> ((db, sess), Inl e)
         | Inr db1 \<Rightarrow>
             ((db1, sess\<lparr> quiz_current := (quiz_current sess)(quiz_id qz \<mapsto> current_index + 1) \<rparr>),
              Inr (if current_index + 1 \<ge> int (length question_ids)
                   then Redirect_quiz_results (quiz_id qz)
                   else Redirect_take_quiz (quiz_id qz))))
      else if action = ''jump_to'' then
        (case question_index_param (post_question_index post) of
           Inl e \<Rightarrow> ((db, sess), Inl e)
         | Inr target_index \<Rightarrow>
             (if 0 \<le> target_index \<and> target_index < int (length question_ids) then
                ((db, sess\<lparr> quiz_current := (quiz_current sess)(quiz_id qz \<mapsto> target_index) \<rparr>),
                 Inr (Redirect_take_quiz (quiz_id qz)))
              else ((db, sess), render_take_quiz db qz qn question_ids current_index late)))
      else ((db, sess), render_take_quiz db qz qn question_ids current_index late))"

text \<open>
  \<open>request.session.get(f'quiz_{quiz.id}_questions', [])\<close> and
  \<open>request.session.get(f'quiz_{quiz.id}_current', 0)\<close>.
\<close>

definition session_questions :: "session \<Rightarrow> nat \<Rightarrow> nat list" where
  "session_questions sess qid = (case quiz_questions sess qid of None \<Rightarrow> [] | Some ids \<Rightarrow> ids)"

definition session_current :: "session \<Rightarrow> nat \<Rightarrow> int" where
  "session_current sess qid = (case quiz_current sess qid of None \<Rightarrow> 0 | Some i \<Rightarrow> i)"

text \<open>
  \<open>take_quiz(request, quiz_id)\<close>: the string functions of Python, the database, the session, the authenticated user, the
  quiz id of the URL and the request.
\<close>

definition take_quiz ::
  "python \<Rightarrow> database \<Rightarrow> session \<Rightarrow> nat \<Rightarrow> nat \<Rightarrow> request
     \<Rightarrow> (database \<times> session) \<times> (error + take_response)" where
  "take_quiz py db sess user qid req =
     (case find (\<lambda>q. quiz_id q = qid \<and> quiz_user q = user \<and> \<not> is_completed q) (quizzes db) of
        None \<Rightarrow> ((db, sess), Inl Http404)
      | Some qz \<Rightarrow>
          (let question_ids = session_questions sess (quiz_id qz);
               current_index = session_current sess (quiz_id qz)
           in if question_ids = [] \<or> current_index \<ge> int (length question_ids)
              then ((db, sess), Inr (Redirect_quiz_results (quiz_id qz)))
              else
                (case py_index question_ids current_index of
                   Inl e \<Rightarrow> ((db, sess), Inl e)
                 | Inr k \<Rightarrow>
                     (case find (\<lambda>q. question_id q = k) (questions db) of
                        None \<Rightarrow> ((db, sess), Inl Http404)
                      | Some qn \<Rightarrow>
                          (case req of
                             GET \<Rightarrow>
                               ((db, sess),
                                render_take_quiz db qz qn question_ids current_index [])
                           | POST post \<Rightarrow>
                               handle_post py db sess qz qn question_ids current_index post)))))"

section \<open>Starting a quiz (views.start_quiz, views.start_book_quiz, forms.QuizSelectionForm)\<close>

text \<open>
  The source of a quiz is a Chapter object, a Book object or anything else
  (\<open>isinstance\<close> in \<open>get_questions_for_source\<close>); the objects are represented by their ids.
\<close>

datatype source = Chapter_source nat | Book_source nat | No_source

definition in_book :: "database \<Rightarrow> nat \<Rightarrow> Question \<Rightarrow> bool" where
  "in_book db b q =
     list_ex (\<lambda>c. chapter_id c = question_chapter q \<and> chapter_book c = b) (chapters db)"

definition filter_difficulty :: "string \<Rightarrow> Question list \<Rightarrow> Question list" where
  "filter_difficulty d qs = (if d \<noteq> ''all'' then filter (\<lambda>q. difficulty q = d) qs else qs)"

fun get_questions_for_source :: "database \<Rightarrow> source \<Rightarrow> string \<Rightarrow> Question list" where
  "get_questions_for_source db (Chapter_source c) d =
     filter_difficulty d (filter (\<lambda>q. question_chapter q = c) (questions db))"
| "get_questions_for_source db (Book_source b) d =
     filter_difficulty d (filter (in_book db b) (questions db))"
| "get_questions_for_source db No_source d = []"

subsection \<open>The selection form\<close>

record start_post =
  sp_quiz_type :: string
  sp_chapter :: post_int
  sp_book :: post_int
  sp_num_questions :: post_int
  sp_difficulty :: string
  sp_duration_minutes :: string

datatype start_request = Start_GET | Start_POST start_post

datatype form_error =
    Invalid_field string
  | Select_a_chapter
  | Select_a_book
  | Only_available_in_chapter nat "string option"
  | Only_available_in_book nat "string option"

text \<open>
  \<open>cleaned_data\<close>: a field that failed its own validation is missing (\<open>None\<close>); the two
  optional model choices are also \<open>None\<close> when nothing was selected.
\<close>

record cleaned_data =
  cd_quiz_type :: "string option"
  cd_chapter :: "nat option"
  cd_book :: "nat option"
  cd_num_questions :: "int option"
  cd_difficulty :: "string option"
  cd_duration_minutes :: "string option"

definition clean_choice :: "string \<Rightarrow> string list \<Rightarrow> string \<Rightarrow> string option \<times> form_error list" where
  "clean_choice name choices v =
     (if v \<in> set choices then (Some v, []) else (None, [Invalid_field name]))"

definition clean_model_choice ::
  "string \<Rightarrow> nat list \<Rightarrow> post_int \<Rightarrow> nat option \<times> form_error list" where
  "clean_model_choice name queryset v =
     (case v of
        Absent \<Rightarrow> (None, [])
      | Malformed \<Rightarrow> (None, [Invalid_field name])
      | Posted i \<Rightarrow>
          (if 0 \<le> i \<and> nat i \<in> set queryset then (Some (nat i), [])
           else (None, [Invalid_field name])))"

text \<open>\<open>IntegerField(min_value=1, max_value=50)\<close>, required.\<close>

definition clean_num_questions :: "post_int \<Rightarrow> int option \<times> form_error list" where
  "clean_num_questions v =
     (case v of
        Posted n \<Rightarrow>
          (if 1 \<le> n \<and> n \<le> 50 then (Some n, []) else (None, [Invalid_field ''num_questions'']))
      | _ \<Rightarrow> (None, [Invalid_field ''num_questions'']))"

definition duration_choices :: "(string \<times> nat) list" where
  "duration_choices =
     [(''15'', 15), (''30'', 30), (''45'', 45), (''60'', 60), (''90'', 90), (''120'', 120)]"

definition clean_fields :: "nat list \<Rightarrow> nat list \<Rightarrow> start_post \<Rightarrow> cleaned_data \<times> form_error list" where
  "clean_fields chapter_queryset book_queryset post =
     (case clean_choice ''quiz_type'' [''chapter'', ''book''] (sp_quiz_type post) of (qt, e1) \<Rightarrow>
      case clean_model_choice ''chapter'' chapter_queryset (sp_chapter post) of (ch, e2) \<Rightarrow>
      case clean_model_choice ''book'' book_queryset (sp_book post) of (bk, e3) \<Rightarrow>
      case clean_num_questions (sp_num_questions post) of (num, e4) \<Rightarrow>
      case clean_choice ''difficulty'' [''all'', ''easy'', ''medium'', ''hard'']
             (sp_difficulty post) of (df, e5) \<Rightarrow>
      case clean_choice ''duration_minutes'' (map fst duration_choices)
             (sp_duration_minutes post) of (du, e6) \<Rightarrow>
        (\<lparr> cd_quiz_type = qt, cd_chapter = ch, cd_book = bk, cd_num_questions = num,
            cd_difficulty = df, cd_duration_minutes = du \<rparr>,
         e1 @ e2 @ e3 @ e4 @ e5 @ e6))"

text \<open>
  \<open>QuizSelectionForm.clean\<close>: \<open>Some e\<close> is the ValidationError raised, \<open>None\<close> the normal
  return.
\<close>

definition clean :: "database \<Rightarrow> cleaned_data \<Rightarrow> form_error option" where
  "clean db cd =
     (let quiz_type = cd_quiz_type cd;
          d = (case cd_difficulty cd of None \<Rightarrow> ''all'' | Some x \<Rightarrow> x);
          shown = (if d = ''all'' then None else Some d)
      in
      if quiz_type = Some ''chapter'' \<and> cd_chapter cd = None then Some Select_a_chapter
      else if quiz_type = Some ''book'' \<and> cd_book cd = None then Some Select_a_book
      else
        (case cd_num_questions cd of
           None \<Rightarrow> None
         | Some num_questions \<Rightarrow>
             (if num_questions = 0 then None
              else
                (let available_questions =
                       (if quiz_type = Some ''chapter'' \<and> cd_chapter cd \<noteq> None then
                          (case cd_chapter cd of
                             Some c \<Rightarrow> length (get_questions_for_source db (Chapter_source c) d)
                           | None \<Rightarrow> 0)
                        else if quiz_type = Some ''book'' \<and> cd_book cd \<noteq> None then
                          (case cd_book cd of
                             Some b \<Rightarrow> length (get_questions_for_source db (Book_source b) d)
                           | None \<Rightarrow> 0)
                        else 0)
                 in if available_questions > 0 \<and> num_questions > int available_questions then
                      (if quiz_type = Some ''chapter''
                       then Some (Only_available_in_chapter available_questions shown)
                       else Some (Only_available_in_book available_questions shown))
                    else None))))"

text \<open>
  \<open>form.is_valid()\<close> runs the field validation and then \<open>clean\<close>, and collects the errors;
  the form is valid when there are none.
\<close>

definition full_clean ::
  "database \<Rightarrow> nat list \<Rightarrow> nat list \<Rightarrow> start_post \<Rightarrow> cleaned_data \<times> form_error list" where
  "full_clean db chapter_queryset book_queryset post =
     (case clean_fields chapter_queryset book_queryset post of
        (cd, errs) \<Rightarrow> (cd, errs @ (case clean db cd of None \<Rightarrow> [] | Some e \<Rightarrow> [e])))"

subsection \<open>Sampling\<close>

text \<open>
  \<open>random.sample(population, k)\<close> of the Python standard library, by its selection from a
  pool without replacement: the \<open>i\<close>-th pick takes the element at a random position of
  the pool and moves the last pool element into its place. The shared random source is
  the parameter \<open>rnd\<close>, the raw value of each successive draw. (For large populations
  the library picks random positions of the population and draws again on a repeated
  position, which yields the same kind of result.)
\<close>

fun sample_pool :: "(nat \<Rightarrow> nat) \<Rightarrow> nat \<Rightarrow> 'a list \<Rightarrow> nat \<Rightarrow> 'a list" where
  "sample_pool rnd i pool 0 = []"
| "sample_pool rnd i pool (Suc k) =
     (let j = rnd i mod length pool
      in pool ! j # sample_pool rnd (Suc i) (butlast (pool[j := last pool])) k)"

definition random_sample :: "(nat \<Rightarrow> nat) \<Rightarrow> 'a list \<Rightarrow> int \<Rightarrow> error + 'a list" where
  "random_sample rnd population k =
     (if k < 0 \<or> int (length population) < k then Inl ValueError
      else Inr (sample_pool rnd 0 population (nat k)))"

subsection \<open>The views\<close>

record start_context =
  sc_form_errors :: "form_error list"
  sc_source :: source
  sc_easy_count :: nat
  sc_medium_count :: nat
  sc_hard_count :: nat
  sc_is_book_quiz :: bool
  sc_messages :: "message list"

datatype start_response = Start_redirect_take_quiz nat | Render_start_quiz start_context

definition render_start_quiz ::
  "database \<Rightarrow> source \<Rightarrow> form_error list \<Rightarrow> message list \<Rightarrow> start_response" where
  "render_start_quiz db src errs msgs =
     (let all_questions = get_questions_for_source db src ''all''
      in Render_start_quiz
           \<lparr> sc_form_errors = errs,
             sc_source = src,
             sc_easy_count = length (filter (\<lambda>q. difficulty q = ''easy'') all_questions),
             sc_medium_count = length (filter (\<lambda>q. difficulty q = ''medium'') all_questions),
             sc_hard_count = length (filter (\<lambda>q. difficulty q = ''hard'') all_questions),
             sc_is_book_quiz = (case src of Book_source _ \<Rightarrow> True | _ \<Rightarrow> False),
             sc_messages = msgs \<rparr>)"

text \<open>\<open>Quiz.objects.create\<close> gives the new row a primary key that no row has.\<close>

definition new_quiz_id :: "database \<Rightarrow> nat" where
  "new_quiz_id db = Suc (Max (set (0 # map quiz_id (quizzes db))))"

definition create_quiz :: "database \<Rightarrow> nat \<Rightarrow> source \<Rightarrow> nat \<Rightarrow> nat \<Rightarrow> nat \<Rightarrow> Quiz" where
  "create_quiz db user src num dur now =
     \<lparr> quiz_id = new_quiz_id db, quiz_user = user,
       quiz_chapter = (case src of Chapter_source c \<Rightarrow> Some c | _ \<Rightarrow> None),
       quiz_book = (case src of Book_source b \<Rightarrow> Some b | _ \<Rightarrow> None),
       start_time = now, end_time = None, duration_minutes = dur, score = None,
       total_questions = num, correct_answers = 0, is_completed = False \<rparr>"

text \<open>
  Lines 133-170 (and 217-254): the availability check of the view, the creation of the
  quiz, the sampling and the session keys.
\<close>

definition create_and_sample ::
  "(nat \<Rightarrow> nat) \<Rightarrow> database \<Rightarrow> session \<Rightarrow> nat \<Rightarrow> source \<Rightarrow> nat \<Rightarrow> int \<Rightarrow> string \<Rightarrow> nat
     \<Rightarrow> (database \<times> session) \<times> (error + start_response)" where
  "create_and_sample rnd db sess user src now num_questions d dur =
     (let questions_qs = get_questions_for_source db src d
      in if int (length questions_qs) < num_questions then
           ((db, sess),
            Inr (render_start_quiz db src [] [Only_questions_available (length questions_qs)]))
         else
           (let qz = create_quiz db user src (nat num_questions) dur now;
                db1 = db\<lparr> quizzes := quizzes db @ [qz] \<rparr>
            in case random_sample rnd questions_qs num_questions of
                 Inl e \<Rightarrow> ((db1, sess), Inl e)
               | Inr qs \<Rightarrow>
                   ((db1,
                     sess\<lparr> quiz_questions :=
                             (quiz_questions sess)(quiz_id qz \<mapsto> map question_id qs),
                           quiz_current := (quiz_current sess)(quiz_id qz \<mapsto> 0) \<rparr>),
                    Inr (Start_redirect_take_quiz (quiz_id qz)))))"

text \<open>
  The body shared by \<open>start_quiz\<close> (lines 122-198) and \<open>start_book_quiz\<close> (lines 206-282),
  which differ in the source object and in the form field whose queryset is narrowed.
\<close>

definition start_for ::
  "(nat \<Rightarrow> nat) \<Rightarrow> database \<Rightarrow> session \<Rightarrow> nat \<Rightarrow> source \<Rightarrow> nat list \<Rightarrow> nat list \<Rightarrow> nat
     \<Rightarrow> start_request \<Rightarrow> (database \<times> session) \<times> (error + start_response)" where
  "start_for rnd db sess user src chapter_queryset book_queryset now req =
     (case req of
        Start_GET \<Rightarrow> ((db, sess), Inr (render_start_quiz db src [] []))
      | Start_POST post \<Rightarrow>
          (case full_clean db chapter_queryset book_queryset post of
             (cd, errs) \<Rightarrow>
               if errs \<noteq> [] then ((db, sess), Inr (render_start_quiz db src errs []))
               else
                 (case cd_num_questions cd of
                    None \<Rightarrow> ((db, sess), Inl KeyError)
                  | Some num_questions \<Rightarrow>
                 (case cd_difficulty cd of
                    None \<Rightarrow> ((db, sess), Inl KeyError)
                  | Some d \<Rightarrow>
                 (case cd_duration_minutes cd of
                    None \<Rightarrow> ((db, sess), Inl KeyError)
                  | Some t \<Rightarrow>
                 (case map_of duration_choices t of
                    None \<Rightarrow> ((db, sess), Inl ValueError)
                  | Some dur \<Rightarrow>
                      create_and_sample rnd db sess user src now num_questions d dur))))))"

definition start_quiz ::
  "(nat \<Rightarrow> nat) \<Rightarrow> database \<Rightarrow> session \<Rightarrow> nat \<Rightarrow> nat \<Rightarrow> nat \<Rightarrow> start_request
     \<Rightarrow> (database \<times> session) \<times> (error + start_response)" where
  "start_quiz rnd db sess user chapter_id' now req =
     (if chapter_id' \<in> set (map chapter_id (chapters db)) then
        start_for rnd db sess user (Chapter_source chapter_id') [chapter_id'] (books db) now req
      else ((db, sess), Inl Http404))"

definition start_book_quiz ::
  "(nat \<Rightarrow> nat) \<Rightarrow> database \<Rightarrow> session \<Rightarrow> nat \<Rightarrow> nat \<Rightarrow> nat \<Rightarrow> start_request
     \<Rightarrow> (database \<times> session) \<times> (error + start_response)" where
  "start_book_quiz rnd db sess user book_id' now req =
     (if book_id' \<in> set (books db) then
        start_for rnd db sess user (Book_source book_id')
          (map chapter_id (chapters db)) [book_id'] now req
      else ((db, sess), Inl Http404))"

text \<open>
  urls.py: \<open>quiz/start/chapter/<id>/\<close> goes to \<open>start_quiz\<close> and \<open>quiz/start/book/<id>/\<close> to
  \<open>start_book_quiz\<close>.
\<close>

datatype start_route = Start_chapter nat | Start_book nat

fun route_source :: "start_route \<Rightarrow> source" where
  "route_source (Start_chapter c) = Chapter_source c"
| "route_source (Start_book b) = Book_source b"

fun start_url ::
  "(nat \<Rightarrow> nat) \<Rightarrow> database \<Rightarrow> session \<Rightarrow> nat \<Rightarrow> start_route \<Rightarrow> nat \<Rightarrow> start_request
     \<Rightarrow> (database \<times> session) \<times> (error + start_response)" where
  "start_url rnd db sess user (Start_chapter c) now req = start_quiz rnd db sess user c now req"
| "start_url rnd db sess user (Start_book b) now req = start_book_quiz rnd db sess user b now req"

section \<open>Notions of the specification\<close>

text \<open>
  The situation in which \<open>take_quiz\<close> reaches the question page: the quiz \<open>qz\<close> with id
  \<open>qid\<close> belongs to the user and is not completed, the session holds the question ids
  \<open>ids\<close> and the cursor \<open>cur\<close> inside them, and \<open>qn\<close> is the question under the cursor.
\<close>

definition at_question ::
  "database \<Rightarrow> session \<Rightarrow> nat \<Rightarrow> nat \<Rightarrow> Quiz \<Rightarrow> nat list \<Rightarrow> int \<Rightarrow> Question \<Rightarrow> bool" where
  "at_question db sess user qid qz ids cur qn =
     (find (\<lambda>q. quiz_id q = qid \<and> quiz_user q = user \<and> \<not> is_completed q) (quizzes db) = Some qz
      \<and> session_questions sess qid = ids \<and> session_current sess qid = cur
      \<and> 0 \<le> cur \<and> cur < int (length ids)
      \<and> find (\<lambda>q. question_id q = ids ! nat cur) (questions db) = Some qn)"

text \<open>
  The status transition table as the specification words it, over the three actions that
  change a status. A question without a status record is \<open>unattempted\<close>.
\<close>

datatype action_kind = Submit_answer | Mark_for_review | Clear_answer

fun spec_transition :: "status \<Rightarrow> action_kind \<Rightarrow> status option" where
  "spec_transition unattempted Submit_answer = Some attempted"
| "spec_transition attempted Submit_answer = Some attempted"
| "spec_transition attempted Mark_for_review = Some answered_and_marked"
| "spec_transition unattempted Mark_for_review = Some marked_for_review"
| "spec_transition marked_for_review Submit_answer = Some answered_and_marked"
| "spec_transition answered_and_marked Clear_answer = Some marked_for_review"
| "spec_transition attempted Clear_answer = Some unattempted"
| "spec_transition _ _ = None"

fun action_name :: "action_kind \<Rightarrow> string" where
  "action_name Submit_answer = ''next''"
| "action_name Mark_for_review = ''mark_for_review''"
| "action_name Clear_answer = ''clear_answer''"

definition current_status :: "database \<Rightarrow> nat \<Rightarrow> nat \<Rightarrow> status" where
  "current_status db qz k =
     (case question_statuses db (qz, k) of None \<Rightarrow> unattempted | Some s \<Rightarrow> s)"

text \<open>
  What \<open>str.strip()\<close> and \<open>str.lower()\<close> do on strings of ASCII characters: the blanks are
  the characters 9 to 13 and 28 to 32, and the capitals A to Z become small letters. The
  pair \<open>ascii_python\<close> serves for the examples, whose strings are all ASCII.
\<close>

definition ascii_isspace :: "char \<Rightarrow> bool" where
  "ascii_isspace c = ((of_char c :: nat) \<in> {9, 10, 11, 12, 13, 28, 29, 30, 31, 32})"

definition ascii_strip :: "string \<Rightarrow> string" where
  "ascii_strip s = rev (dropWhile ascii_isspace (rev (dropWhile ascii_isspace s)))"

definition ascii_isupper :: "char \<Rightarrow> bool" where
  "ascii_isupper c = (65 \<le> (of_char c :: nat) \<and> (of_char c :: nat) \<le> 90)"

definition ascii_lower_char :: "char \<Rightarrow> char" where
  "ascii_lower_char c = (if ascii_isupper c then char_of ((of_char c :: nat) + 32) else c)"

definition ascii_lower :: "string \<Rightarrow> string" where
  "ascii_lower s = map ascii_lower_char s"

definition ascii_python :: python where
  "ascii_python = \<lparr> str_strip = ascii_strip, str_lower = ascii_lower \<rparr>"

text \<open>
  Equality up to case of ASCII strings, said without \<open>lower\<close>: two strings of the same
  length whose characters are pairwise equal or a capital letter and its small letter.
\<close>

definition same_letter :: "char \<Rightarrow> char \<Rightarrow> bool" where
  "same_letter a b =
     (a = b \<or> (ascii_isupper a \<and> (of_char b :: nat) = of_char a + 32)
            \<or> (ascii_isupper b \<and> (of_char a :: nat) = of_char b + 32))"

definition equal_up_to_case :: "string \<Rightarrow> string \<Rightarrow> bool" where
  "equal_up_to_case s t = list_all2 same_letter s t"

section \<open>Example data\<close>

definition ex_questions :: "Question list" where
  "ex_questions =
     [\<lparr> question_id = 1, question_chapter = 1, correct_answer = ''C'', difficulty = ''easy'' \<rparr>,
      \<lparr> question_id = 2, question_chapter = 1, correct_answer = ''B'', difficulty = ''medium'' \<rparr>,
      \<lparr> question_id = 3, question_chapter = 1, correct_answer = ''A'', difficulty = ''hard'' \<rparr>,
      \<lparr> question_id = 4, question_chapter = 2, correct_answer = ''D'', difficulty = ''easy'' \<rparr>]"

definition ex_quiz :: "nat \<Rightarrow> nat \<Rightarrow> bool \<Rightarrow> Quiz" where
  "ex_quiz i n done =
     \<lparr> quiz_id = i, quiz_user = 7, quiz_chapter = Some 1, quiz_book = None, start_time = 0,
       end_time = (if done then Some 5 else None), duration_minutes = 30,
       score = (if done then Some 100 else None), total_questions = n,
       correct_answers = (if done then n else 0), is_completed = done \<rparr>"

definition ex_answer :: "nat \<Rightarrow> nat \<Rightarrow> string \<Rightarrow> bool \<Rightarrow> QuizAnswer" where
  "ex_answer qz qn a c =
     \<lparr> answer_quiz = qz, answer_question = qn, user_answer = a, is_correct = c \<rparr>"

text \<open>
  One book with two chapters and four questions; quiz 1 has just started, quiz 2 has four
  wrong answers, quiz 3 is completed, and quiz 4 has more answers than questions.
\<close>

definition ex_db :: database where
  "ex_db =
     \<lparr> books = [1],
       chapters = [\<lparr> chapter_id = 1, chapter_book = 1 \<rparr>, \<lparr> chapter_id = 2, chapter_book = 1 \<rparr>],
       questions = ex_questions,
       quizzes = [ex_quiz 1 2 False, ex_quiz 2 4 False, ex_quiz 3 1 True, ex_quiz 4 1 False],
       answers = [ex_answer 2 1 ''A'' False, ex_answer 2 2 ''A'' False, ex_answer 2 3 ''B'' False,
                  ex_answer 2 4 ''A'' False, ex_answer 4 1 ''A'' False, ex_answer 4 2 ''A'' False,
                  ex_answer 3 1 ''C'' True],
       question_statuses = Map.empty \<rparr>"

text \<open>The same data with a single question, whose label ends with a blank.\<close>

definition ex_blank_question :: Question where
  "ex_blank_question =
     \<lparr> question_id = 1, question_chapter = 1, correct_answer = ''C '', difficulty = ''easy'' \<rparr>"

definition ex_db_blank_label :: database where
  "ex_db_blank_label = ex_db\<lparr> questions := [ex_blank_question] \<rparr>"

definition ex_session :: session where
  "ex_session = \<lparr> quiz_questions = [1 \<mapsto> [1, 2]], quiz_current = [1 \<mapsto> 0] \<rparr>"

definition jump_post :: "int \<Rightarrow> post_data" where
  "jump_post i =
     \<lparr> post_action = Some ''jump_to'', post_answer = None, post_question_index = Posted i \<rparr>"

definition next_post :: "string \<Rightarrow> post_data" where
  "next_post a = \<lparr> post_action = None, post_answer = Some a, post_question_index = Absent \<rparr>"

definition action_post :: "string \<Rightarrow> post_data" where
  "action_post a = \<lparr> post_action = Some a, post_answer = None, post_question_index = Absent \<rparr>"

section \<open>Well-formed start requests\<close>

text \<open>
  The POST data that the start page of a chapter or of a book sends: the quiz type and the
  id of that chapter or book, a number of questions within the range of the form field, and
  a difficulty and a duration among the choices.
\<close>

definition own_form :: "start_route \<Rightarrow> start_post \<Rightarrow> bool" where
  "own_form route post =
     (case route of
        Start_chapter c \<Rightarrow>
          sp_quiz_type post = ''chapter'' \<and> sp_chapter post = Posted (int c) \<and> sp_book post = Absent
      | Start_book b \<Rightarrow>
          sp_quiz_type post = ''book'' \<and> sp_book post = Posted (int b) \<and> sp_chapter post = Absent)"

definition route_exists :: "database \<Rightarrow> start_route \<Rightarrow> bool" where
  "route_exists db route =
     (case route of
        Start_chapter c \<Rightarrow> c \<in> set (map chapter_id (chapters db))
      | Start_book b \<Rightarrow> b \<in> set (books db))"

definition well_formed_post :: "database \<Rightarrow> start_route \<Rightarrow> start_post \<Rightarrow> int \<Rightarrow> bool" where
  "well_formed_post db route post n =
     (route_exists db route \<and> own_form route post
      \<and> sp_num_questions post = Posted n \<and> 1 \<le> n \<and> n \<le> 50
      \<and> sp_difficulty post \<in> set [''all'', ''easy'', ''medium'', ''hard'']
      \<and> sp_duration_minutes post \<in> set (map fst duration_choices))"

text \<open>
  The error that \<open>QuizSelectionForm.clean\<close> raises for the source of the route: the number of
  available questions, and the difficulty unless it is \<open>all\<close>.
\<close>

definition availability_error :: "start_route \<Rightarrow> nat \<Rightarrow> string \<Rightarrow> form_error" where
  "availability_error route available d =
     (case route of
        Start_chapter _ \<Rightarrow> Only_available_in_chapter available (if d = ''all'' then None else Some d)
      | Start_book _ \<Rightarrow> Only_available_in_book available (if d = ''all'' then None else Some d))"

definition ex_post :: "string \<Rightarrow> nat \<Rightarrow> int \<Rightarrow> string \<Rightarrow> start_post" where
  "ex_post kind i n d =
     \<lparr> sp_quiz_type = kind,
       sp_chapter = (if kind = ''chapter'' then Posted (int i) else Absent),
       sp_book = (if kind = ''book'' then Posted (int i) else Absent),
       sp_num_questions = Posted n, sp_difficulty = d, sp_duration_minutes = ''30'' \<rparr>"

section \<open>Auxiliary facts\<close>

lemma find_Some_props: "find P xs = Some x \<Longrightarrow> P x \<and> x \<in> set xs"
  by (induction xs) (auto split: if_splits)

lemma distinct_find_unique:
  "distinct (map f xs) \<Longrightarrow> x \<in> set xs \<Longrightarrow> find (\<lambda>y. f y = f x \<and> P y) xs = Some z \<Longrightarrow> z = x"
proof -
  assume d: "distinct (map f xs)" and x: "x \<in> set xs" and fz: "find (\<lambda>y. f y = f x \<and> P y) xs = Some z"
  from find_Some_props[OF fz] have "f z = f x" "z \<in> set xs" by auto
  moreover from d have "inj_on f (set xs)" by (simp add: distinct_map)
  ultimately show "z = x" using x by (auto dest: inj_onD)
qed

lemma find_save_quiz:
  "find (\<lambda>r. quiz_id r = qid \<and> quiz_user r = u) qs = Some q0 \<Longrightarrow> quiz_id q' = qid \<Longrightarrow> quiz_user q' = u
   \<Longrightarrow> find (\<lambda>r. quiz_id r = qid \<and> quiz_user r = u) (save_quiz q' qs) = Some q'"
  by (induction qs) (auto simp: save_quiz_def split: if_splits)

lemma quiz_answers_seal:
  "seal db sess q now = (db', sess', q') \<Longrightarrow> quiz_answers db' q' = quiz_answers db q \<and> total_questions q' = total_questions q \<and> is_completed q' \<and> quiz_id q' = quiz_id q \<and> quiz_user q' = quiz_user q"
  by (auto simp: seal_def Let_def quiz_answers_def)

lemma seal_quiz_fields:
  "seal db sess q now = (db', sess', q') \<Longrightarrow>
     q' = q\<lparr> end_time := Some now, score := Some (percentage (get_score_breakdown db q)),
              correct_answers := correct_count (get_score_breakdown db q), is_completed := True \<rparr>"
  by (auto simp: seal_def Let_def get_score_breakdown_def)

lemma results_display_breakdown:
  "quiz_answers db' q' = quiz_answers db q \<Longrightarrow> total_questions q' = total_questions q \<Longrightarrow>
     ctx_correct_count (results_display db' q') = correct_count (get_score_breakdown db q)
   \<and> ctx_wrong_count (results_display db' q') = wrong_count (get_score_breakdown db q)
   \<and> ctx_attempted_count (results_display db' q') = attempted_count (get_score_breakdown db q)
   \<and> ctx_unattempted_count (results_display db' q') = unattempted_count (get_score_breakdown db q)
   \<and> ctx_raw_score (results_display db' q') = raw_score (get_score_breakdown db q)
   \<and> ctx_max_possible_score (results_display db' q') = max_possible (get_score_breakdown db q)
   \<and> ctx_quiz (results_display db' q') = q'"
  by (simp add: results_display_def get_score_breakdown_def Let_def)

lemma length_filter_split: "length (filter P xs) + length (filter (\<lambda>x. \<not> P x) xs) = length xs"
  by (induction xs) auto

lemma take_quiz_at:
  assumes "at_question db sess user qid qz ids cur qn"
  shows "take_quiz py db sess user qid req =
     (case req of GET \<Rightarrow> ((db, sess), render_take_quiz db qz qn ids cur [])
      | POST post \<Rightarrow> handle_post py db sess qz qn ids cur post)"
proof -
  from assms have f: "find (\<lambda>q. quiz_id q = qid \<and> quiz_user q = user \<and> \<not> is_completed q) (quizzes db) = Some qz"
    and ids: "session_questions sess qid = ids" and cur: "session_current sess qid = cur"
    and r: "0 \<le> cur" "cur < int (length ids)"
    and q: "find (\<lambda>q. question_id q = ids ! nat cur) (questions db) = Some qn"
    by (auto simp: at_question_def)
  from find_Some_props[OF f] have id: "quiz_id qz = qid" by simp
  from r have ne: "ids \<noteq> []" by auto
  have px: "py_index ids cur = Inr (ids ! nat cur)" using r by (simp add: py_index_def)
  show ?thesis
    unfolding take_quiz_def using f id ids cur r ne px q by (simp add: Let_def)
qed

lemma get_answer_set_status [simp]: "get_answer (set_status db a b s) qz k = get_answer db qz k"
  by (simp add: get_answer_def set_status_def)

lemma get_answer_cases:
  "get_answer db qz k = Inr x \<Longrightarrow>
     (x = None \<and> filter (\<lambda>a. answer_quiz a = qz \<and> answer_question a = k) (answers db) = []) \<or>
     (\<exists>a. x = Some a \<and> filter (\<lambda>a. answer_quiz a = qz \<and> answer_question a = k) (answers db) = [a])"
  by (auto simp: get_answer_def split: list.splits)

lemma statuses_clear_status:
  "question_statuses (clear_status db qz k) (qz, k) =
     (case question_statuses db (qz, k) of
        None \<Rightarrow> Some unattempted
      | Some s \<Rightarrow> Some (if s = answered_and_marked then marked_for_review
                         else if s = attempted then unattempted else s))"
  by (auto simp: clear_status_def set_status_def split: option.splits)

lemma statuses_mark_status:
  "question_statuses (mark_status db qz k) (qz, k) =
     (case question_statuses db (qz, k) of
        None \<Rightarrow> Some marked_for_review
      | Some s \<Rightarrow> Some (if s = attempted then answered_and_marked else marked_for_review))"
  by (auto simp: mark_status_def set_status_def split: option.splits)

lemma statuses_submit_status:
  "question_statuses (submit_status db qz k) (qz, k) =
     (case question_statuses db (qz, k) of
        None \<Rightarrow> Some attempted
      | Some s \<Rightarrow> Some (if s = marked_for_review then answered_and_marked else attempted))"
  by (auto simp: submit_status_def set_status_def split: option.splits)

lemma clear_answer_result:
  assumes "get_answer db qz k = Inr x"
  shows "\<exists>db1 msg. clear_answer db qz k = Inr (db1, msg)
           \<and> question_statuses db1 (qz, k) = question_statuses (clear_status db qz k) (qz, k)
           \<and> get_answer db1 qz k = Inr None"
proof (cases x)
  case None
  with assms show ?thesis
    by (auto simp: clear_answer_def statuses_clear_status clear_status_def split: option.splits)
next
  case (Some a)
  have g: "get_answer (db\<lparr> answers := filter (\<lambda>a. \<not> (answer_quiz a = qz \<and> answer_question a = k)) (answers db) \<rparr>) qz k = Inr None"
    by (simp add: get_answer_def)
  have g': "get_answer (db\<lparr> answers := filter (\<lambda>a. answer_quiz a = qz \<longrightarrow> answer_question a \<noteq> k) (answers db) \<rparr>) qz k = Inr None"
    using g by simp
  have c: "get_answer (clear_status d qz k) qz k = get_answer d qz k" for d
    by (simp add: clear_status_def split: option.splits)
  from Some assms show ?thesis
    by (simp add: clear_answer_def c g' statuses_clear_status)
qed

lemma render_ok:
  "get_answer db (quiz_id qz) (question_id qn) = Inr x \<Longrightarrow>
     \<exists>ctx. render_take_quiz db qz qn ids cur msgs = Inr (Render_take_quiz ctx) \<and> tc_messages ctx = msgs"
  by (simp add: render_take_quiz_def Let_def)

lemma char_of_nat_eq_iff: "n < 256 \<Longrightarrow> char_of (n::nat) = c \<longleftrightarrow> of_char c = n"
proof
  assume "n < 256" "char_of n = c"
  then have "of_char c = n mod 256" by auto
  with \<open>n < 256\<close> show "of_char c = n" by simp
next
  assume "of_char c = n" then show "char_of n = c" by auto
qed

lemma ascii_lower_char_eq_iff: "ascii_lower_char a = ascii_lower_char b \<longleftrightarrow> same_letter a b"
proof -
  have inj: "(of_char a :: nat) = of_char b \<longleftrightarrow> a = b" by simp
  show ?thesis
  proof (cases "ascii_isupper a"; cases "ascii_isupper b")
    assume u: "ascii_isupper a" "ascii_isupper b"
    then have l: "(of_char a :: nat) + 32 < 256" "(of_char b :: nat) + 32 < 256" by (auto simp: ascii_isupper_def)
    from u have "ascii_lower_char a = ascii_lower_char b \<longleftrightarrow> char_of ((of_char a :: nat) + 32) = char_of ((of_char b :: nat) + 32)"
      by (simp add: ascii_lower_char_def)
    also have "\<dots> \<longleftrightarrow> (of_char a :: nat) + 32 = of_char b + 32"
      using l by (simp add: char_of_nat_eq_iff)
    also have "\<dots> \<longleftrightarrow> a = b" using inj by simp
    also have "\<dots> \<longleftrightarrow> same_letter a b" using u by (auto simp: same_letter_def ascii_isupper_def)
    finally show ?thesis .
  next
    assume u: "ascii_isupper a" "\<not> ascii_isupper b"
    then have l: "(of_char a :: nat) + 32 < 256" by (auto simp: ascii_isupper_def)
    from u have "a \<noteq> b" by auto
    with u l show ?thesis
      by (auto simp: ascii_lower_char_def same_letter_def char_of_nat_eq_iff)
  next
    assume u: "\<not> ascii_isupper a" "ascii_isupper b"
    then have l: "(of_char b :: nat) + 32 < 256" by (auto simp: ascii_isupper_def)
    from u have ne: "a \<noteq> b" by auto
    from u have "ascii_lower_char a = ascii_lower_char b \<longleftrightarrow> char_of ((of_char b :: nat) + 32) = a"
      by (auto simp: ascii_lower_char_def)
    also have "\<dots> \<longleftrightarrow> (of_char a :: nat) = of_char b + 32"
      using l by (simp add: char_of_nat_eq_iff)
    also have "\<dots> \<longleftrightarrow> same_letter a b" using u ne by (auto simp: same_letter_def)
    finally show ?thesis .
  next
    assume "\<not> ascii_isupper a" "\<not> ascii_isupper b"
    then show ?thesis by (auto simp: ascii_lower_char_def same_letter_def)
  qed
qed

lemma ascii_lower_eq_iff: "ascii_lower s = ascii_lower t \<longleftrightarrow> equal_up_to_case s t"
  unfolding ascii_lower_def equal_up_to_case_def
proof (induction s arbitrary: t)
  case Nil
  then show ?case by auto
next
  case (Cons a s)
  then show ?case by (cases t) (auto simp: ascii_lower_char_eq_iff)
qed

lemma filter_map_update:
  assumes "\<And>a. P (g a) = P a"
  shows "filter P (map (\<lambda>a. if P a then g a else a) xs) = map g (filter P xs)"
  by (induction xs) (auto simp: assms)

lemma submit_answer_result:
  assumes "get_answer db qz (question_id qn) = Inr x"
  shows "\<exists>db1. submit_answer py db qz qn ua = Inr db1
           \<and> question_statuses db1 (qz, question_id qn) =
               question_statuses (submit_status db qz (question_id qn)) (qz, question_id qn)
           \<and> map (\<lambda>a. (user_answer a, is_correct a))
                 (filter (\<lambda>a. answer_quiz a = qz \<and> answer_question a = question_id qn) (answers db1))
               = [(ua, str_lower py ua = str_lower py (correct_answer qn))]"
proof -
  have ss: "answers (submit_status d qz k) = answers d" for d k
    by (simp add: submit_status_def set_status_def split: option.splits)
  have st: "question_statuses (submit_status (d\<lparr> answers := xs \<rparr>) qz k) (qz, k) =
     question_statuses (submit_status d qz k) (qz, k)" for d k xs
    by (simp add: statuses_submit_status)
  from get_answer_cases[OF assms] show ?thesis
  proof (elim disjE conjE exE)
    assume "x = None" and f: "filter (\<lambda>a. answer_quiz a = qz \<and> answer_question a = question_id qn) (answers db) = []"
    with assms show ?thesis
      by (simp add: submit_answer_def Let_def ss st)
  next
    fix a assume x: "x = Some a" and f: "filter (\<lambda>a. answer_quiz a = qz \<and> answer_question a = question_id qn) (answers db) = [a]"
    have fm: "filter (\<lambda>a. answer_quiz a = qz \<and> answer_question a = question_id qn)
            (map (\<lambda>a. if answer_quiz a = qz \<and> answer_question a = question_id qn
                       then a\<lparr> user_answer := ua, is_correct := (str_lower py ua = str_lower py (correct_answer qn)) \<rparr> else a) (answers db))
          = map (\<lambda>a. a\<lparr> user_answer := ua, is_correct := (str_lower py ua = str_lower py (correct_answer qn)) \<rparr>)
              (filter (\<lambda>a. answer_quiz a = qz \<and> answer_question a = question_id qn) (answers db))"
      by (rule filter_map_update) simp
    from x assms show ?thesis
      by (simp add: submit_answer_def Let_def ss st fm f)
  qed
qed

lemma stored_answer_after_submit:
  assumes "at_question db sess user qid qz ids cur qn"
    and "posted_action post = ''next''"
    and "posted_answer py post \<noteq> []"
    and "get_answer db qid (question_id qn) = Inr x"
  shows "map (\<lambda>a. (user_answer a, is_correct a))
           (filter (\<lambda>a. answer_quiz a = qid \<and> answer_question a = question_id qn)
              (answers (fst (fst (take_quiz py db sess user qid (POST post))))))
         = [(posted_answer py post,
             str_lower py (posted_answer py post) = str_lower py (correct_answer qn))]"
proof -
  from assms(1) have id: "quiz_id qz = qid"
    by (auto simp: at_question_def dest: find_Some_props)
  from submit_answer_result[OF assms(4), where ua = "posted_answer py post" and py = py]
  obtain db1 where
    c: "submit_answer py db qid qn (posted_answer py post) = Inr db1"
    and a: "map (\<lambda>a. (user_answer a, is_correct a))
                 (filter (\<lambda>a. answer_quiz a = qid \<and> answer_question a = question_id qn)
                    (answers db1))
               = [(posted_answer py post,
                   str_lower py (posted_answer py post) = str_lower py (correct_answer qn))]"
    by (elim exE conjE)
  have hp: "fst (fst (handle_post py db sess qz qn ids cur post)) = db1"
    using assms(2,3) id c by (simp add: handle_post_def Let_def)
  show ?thesis
    unfolding take_quiz_at[OF assms(1)] request.case hp a ..
qed

lemma ex_at_question_blank:
  "at_question ex_db_blank_label ex_session 7 1 (ex_quiz 1 2 False) [1, 2] 0 ex_blank_question"
  by (simp add: at_question_def ex_db_blank_label_def ex_db_def ex_session_def ex_quiz_def
        ex_blank_question_def session_questions_def session_current_def)

lemma ex_next_post:
  "posted_action (next_post v) = ''next''"
  "posted_answer ascii_python (next_post v) = ascii_strip v"
  "post_answer (next_post v) = Some v"
  by (simp_all add: next_post_def posted_action_def posted_answer_def ascii_python_def)

lemma ex_ascii_strip:
  "ascii_strip '' c '' = ''c''" "ascii_strip ''c '' = ''c''" "ascii_strip ''C '' = ''C''"
  "ascii_strip ''B'' = ''B''"
  by (simp_all add: ascii_strip_def ascii_isspace_def)

lemma ex_at_question:
  "at_question ex_db ex_session 7 1 (ex_quiz 1 2 False) [1, 2] 0 (ex_questions ! 0)"
  by (simp add: at_question_def ex_db_def ex_session_def ex_quiz_def ex_questions_def
        session_questions_def session_current_def)

lemma ex_at_question_status:
  "at_question (set_status ex_db a b s) ex_session 7 1 (ex_quiz 1 2 False) [1, 2] 0 (ex_questions ! 0)"
  by (simp add: at_question_def ex_db_def ex_session_def ex_quiz_def ex_questions_def
        session_questions_def session_current_def set_status_def)

lemma ex_find2: "find (\<lambda>r. quiz_id r = 2 \<and> quiz_user r = 7) (quizzes ex_db) = Some (ex_quiz 2 4 False)"
  by (simp add: ex_db_def ex_quiz_def)

lemma ex_breakdown2:
  "get_score_breakdown ex_db (ex_quiz 2 4 False) =
     \<lparr> correct_count = 0, wrong_count = 4, attempted_count = 4, unattempted_count = 0,
       raw_score = - 1, max_possible = 4, percentage = 0 \<rparr>"
  by (simp add: get_score_breakdown_def quiz_answers_def ex_db_def ex_quiz_def ex_answer_def Let_def)

lemma ex_get_answer:
  "get_answer (set_status ex_db a b s) (Suc 0) (Suc 0) = Inr None"
  "get_answer ex_db (Suc 0) (Suc 0) = Inr None"
  by (simp_all add: get_answer_def ex_db_def ex_answer_def set_status_def)

lemma ex_question_1:
  "question_id (ex_questions ! 0) = 1" "correct_answer (ex_questions ! 0) = ''C''"
  by (simp_all add: ex_questions_def)

section \<open>Scoring\<close>

text \<open>
  The score example of the specification, in exact arithmetic: 10 questions, 6 correct and
  2 wrong answers give the raw score 5.5 and 55 percent.
\<close>

lemma score_example:
  "get_score_breakdown
     \<lparr> books = [], chapters = [], questions = [],
       quizzes = [ex_quiz 1 10 False],
       answers = map (\<lambda>k. ex_answer 1 k ''A'' True) [1, 2, 3, 4, 5, 6]
                 @ map (\<lambda>k. ex_answer 1 k ''B'' False) [7, 8],
       question_statuses = Map.empty \<rparr> (ex_quiz 1 10 False) =
     \<lparr> correct_count = 6, wrong_count = 2, attempted_count = 8, unattempted_count = 2,
       raw_score = 5.5, max_possible = 10, percentage = 55 \<rparr>"
  by (simp add: get_score_breakdown_def quiz_answers_def ex_quiz_def ex_answer_def Let_def)

text \<open>
  Claim C1. When \<open>quiz_results\<close> seals a quiz, and in \<open>Quiz.get_score_breakdown\<close>, the raw
  score is \<open>correct * 1.0 + wrong * (-0.25) + unattempted * 0.0\<close>, the maximum is
  \<open>total_questions * 1.0\<close>, and the percentage is \<open>max(0, raw / max * 100)\<close> when the
  maximum is positive and 0 otherwise; the percentage is never negative, a negative raw
  score gives 0, and the percentage is what is stored as the score of the sealed quiz.
\<close>

theorem score_breakdown_formula:
  assumes "find (\<lambda>r. quiz_id r = qid \<and> quiz_user r = user) (quizzes db) = Some q"
    and "\<not> is_completed q"
    and "b = get_score_breakdown db q"
    and "ctx = projr (snd (quiz_results db sess user qid now))"
  shows "correct_count b = length (filter is_correct (quiz_answers db q))
       \<and> wrong_count b = length (filter (\<lambda>a. \<not> is_correct a) (quiz_answers db q))
       \<and> attempted_count b = correct_count b + wrong_count b
       \<and> unattempted_count b = int (total_questions q) - int (attempted_count b)
       \<and> raw_score b = real (correct_count b) * 1.0 + real (wrong_count b) * (- 0.25)
                        + real_of_int (unattempted_count b) * 0.0
       \<and> max_possible b = real (total_questions q) * 1.0
       \<and> percentage b = (if max_possible b > 0 then max 0 (raw_score b / max_possible b * 100) else 0)
       \<and> 0 \<le> percentage b
       \<and> (raw_score b < 0 \<longrightarrow> percentage b = 0)
       \<and> \<not> isl (snd (quiz_results db sess user qid now))
       \<and> is_completed (ctx_quiz ctx)
       \<and> score (ctx_quiz ctx) = Some (percentage b)
       \<and> correct_answers (ctx_quiz ctx) = correct_count b
       \<and> find (\<lambda>r. quiz_id r = qid \<and> quiz_user r = user)
            (quizzes (fst (fst (quiz_results db sess user qid now)))) = Some (ctx_quiz ctx)
       \<and> ctx_correct_count ctx = correct_count b \<and> ctx_wrong_count ctx = wrong_count b
       \<and> ctx_unattempted_count ctx = unattempted_count b
       \<and> ctx_raw_score ctx = raw_score b \<and> ctx_max_possible_score ctx = max_possible b"
proof -
  obtain db' sess' q' where s: "seal db sess q now = (db', sess', q')"
    by (cases "seal db sess q now") auto
  note p = quiz_answers_seal[OF s]
  from find_Some_props[OF assms(1)] have qp: "quiz_id q = qid" "quiz_user q = user" by auto
  from s have dbq: "quizzes db' = save_quiz q' (quizzes db)" by (auto simp: seal_def Let_def)
  have f: "find (\<lambda>q. quiz_id q = qid \<and> quiz_user q = user) (quizzes db') = Some q'"
    unfolding dbq using find_save_quiz[OF assms(1)] p qp by simp
  have r: "quiz_results db sess user qid now = ((db', sess'), Inr (results_display db' q'))"
    using assms(1,2) s by (simp add: quiz_results_def)
  have c: "ctx = results_display db' q'" using assms(4) r by simp
  note d = results_display_breakdown[of db' q' db q, OF conjunct1[OF p] conjunct1[OF conjunct2[OF p]]]
  have q': "score q' = Some (percentage b)" "correct_answers q' = correct_count b" "is_completed q'"
    using seal_quiz_fields[OF s] assms(3) by simp_all
  have b1: "correct_count b = length (filter is_correct (quiz_answers db q))"
    "wrong_count b = length (filter (\<lambda>a. \<not> is_correct a) (quiz_answers db q))"
    "attempted_count b = length (quiz_answers db q)"
    "unattempted_count b = int (total_questions q) - int (attempted_count b)"
    "raw_score b = real (correct_count b) * 1.0 + real (wrong_count b) * (- 0.25)
                        + real_of_int (unattempted_count b) * 0.0"
    "max_possible b = real (total_questions q) * 1.0"
    "percentage b = (if max_possible b > 0 then max 0 (raw_score b / max_possible b * 100) else 0)"
    unfolding assms(3) by (simp_all add: get_score_breakdown_def Let_def)
  have b2: "attempted_count b = correct_count b + wrong_count b"
    unfolding b1(1,2,3) using length_filter_split[of is_correct "quiz_answers db q"] by simp
  have mp: "0 \<le> max_possible b" unfolding b1(6) by simp
  have b3: "0 \<le> percentage b" unfolding b1(7) by simp
  have b4: "raw_score b < 0 \<longrightarrow> percentage b = 0"
  proof
    assume n: "raw_score b < 0"
    show "percentage b = 0"
    proof (cases "max_possible b > 0")
      case True
      with n have "raw_score b / max_possible b * 100 \<le> 0"
        by (simp add: divide_nonpos_pos mult_nonpos_nonneg less_imp_le)
      with True show ?thesis unfolding b1(7) by simp
    next
      case False then show ?thesis unfolding b1(7) by simp
    qed
  qed
  show ?thesis
    using b1(1,2,4,5,6,7) b2 b3 b4 q' f d unfolding c r assms(3)[symmetric] by simp
qed

theorem score_breakdown_formula_witness:
  "find (\<lambda>r. quiz_id r = 2 \<and> quiz_user r = 7) (quizzes ex_db) = Some (ex_quiz 2 4 False)
   \<and> \<not> is_completed (ex_quiz 2 4 False)
   \<and> raw_score (get_score_breakdown ex_db (ex_quiz 2 4 False)) = - 1
   \<and> max_possible (get_score_breakdown ex_db (ex_quiz 2 4 False)) = 4
   \<and> percentage (get_score_breakdown ex_db (ex_quiz 2 4 False)) = 0
   \<and> score (ctx_quiz (projr (snd (quiz_results ex_db ex_session 7 2 9)))) = Some 0"
proof -
  have n: "\<not> is_completed (ex_quiz 2 4 False)" by (simp add: ex_quiz_def)
  from score_breakdown_formula[OF ex_find2 n refl refl, of ex_session 9]
  have "score (ctx_quiz (projr (snd (quiz_results ex_db ex_session 7 2 9)))) =
          Some (percentage (get_score_breakdown ex_db (ex_quiz 2 4 False)))" by (elim conjE)
  then show ?thesis using ex_find2 n by (simp add: ex_breakdown2)
qed

text \<open>
  Claim C5. A second call of \<open>quiz_results\<close> on the quiz that the first call sealed (or found
  sealed) returns the same context and leaves the database and the session as they are:
  the stored score, the correct-answer count and the end time are not written again, and
  the displayed breakdown is the same, whatever the clock says.
\<close>

theorem quiz_results_idempotent:
  assumes "quiz_results db sess user qid now = ((db1, sess1), Inr ctx)"
  shows "quiz_results db1 sess1 user qid now' = ((db1, sess1), Inr ctx)
       \<and> is_completed (ctx_quiz ctx)
       \<and> find (\<lambda>q. quiz_id q = qid \<and> quiz_user q = user) (quizzes db1) = Some (ctx_quiz ctx)
       \<and> ctx = results_display db1 (ctx_quiz ctx)"
proof (cases "find (\<lambda>q. quiz_id q = qid \<and> quiz_user q = user) (quizzes db)")
  case None
  with assms show ?thesis by (simp add: quiz_results_def)
next
  case (Some q)
  show ?thesis
  proof (cases "is_completed q")
    case True
    with Some assms have e: "db1 = db" "sess1 = sess" "ctx = results_display db q"
      by (auto simp: quiz_results_def)
    have cq: "ctx_quiz (results_display db q) = q" by (simp add: results_display_def Let_def)
    show ?thesis unfolding e cq using Some True by (simp add: quiz_results_def)
  next
    case False
    obtain db' sess' q' where s: "seal db sess q now = (db', sess', q')"
      by (cases "seal db sess q now") auto
    from find_Some_props[OF Some] have qp: "quiz_id q = qid" "quiz_user q = user" by auto
    from quiz_answers_seal[OF s] qp
    have p: "is_completed q'" "quiz_id q' = qid" "quiz_user q' = user" by auto
    from s have dbq: "quizzes db' = save_quiz q' (quizzes db)" by (auto simp: seal_def Let_def)
    have f: "find (\<lambda>q. quiz_id q = qid \<and> quiz_user q = user) (quizzes db') = Some q'"
      unfolding dbq using find_save_quiz[OF Some p(2,3)] .
    from assms Some False s have e: "db1 = db'" "sess1 = sess'" "ctx = results_display db' q'"
      by (auto simp: quiz_results_def)
    have cq: "ctx_quiz (results_display db' q') = q'" by (simp add: results_display_def Let_def)
    show ?thesis unfolding e cq using f p(1) by (simp add: quiz_results_def)
  qed
qed

theorem quiz_results_idempotent_witness:
  "\<not> isl (snd (quiz_results ex_db ex_session 7 2 9))
   \<and> quiz_results (fst (fst (quiz_results ex_db ex_session 7 2 9)))
        (snd (fst (quiz_results ex_db ex_session 7 2 9))) 7 2 11
      = quiz_results ex_db ex_session 7 2 9"
proof -
  have n: "\<not> isl (snd (quiz_results ex_db ex_session 7 2 9))"
    by (simp add: quiz_results_def ex_find2 ex_quiz_def seal_def Let_def)
  then obtain db1 sess1 ctx where
    e: "quiz_results ex_db ex_session 7 2 9 = ((db1, sess1), Inr ctx)"
    by (cases "quiz_results ex_db ex_session 7 2 9"; cases "snd (quiz_results ex_db ex_session 7 2 9)") auto
  from quiz_results_idempotent[OF e, of 11] n show ?thesis unfolding e by simp
qed

text \<open>
  Claim C7, as the code has it. The unattempted count is \<open>total_questions\<close> minus the number
  of stored answers with no check: \<open>quiz_results\<close> never fails for a quiz it finds, and the
  count is non-negative exactly when the answers do not outnumber \<open>total_questions\<close>.
\<close>

theorem unattempted_count_unchecked:
  assumes "find (\<lambda>r. quiz_id r = qid \<and> quiz_user r = user) (quizzes db) = Some q"
    and "ctx = projr (snd (quiz_results db sess user qid now))"
  shows "\<not> isl (snd (quiz_results db sess user qid now))
       \<and> ctx_unattempted_count ctx = int (total_questions q) - int (length (quiz_answers db q))
       \<and> (0 \<le> ctx_unattempted_count ctx \<longleftrightarrow> length (quiz_answers db q) \<le> total_questions q)
       \<and> unattempted_count (get_score_breakdown db q) = ctx_unattempted_count ctx"
proof (cases "is_completed q")
  case True
  with assms show ?thesis
    by (simp add: quiz_results_def results_display_def get_score_breakdown_def Let_def)
next
  case False
  obtain db' sess' q' where s: "seal db sess q now = (db', sess', q')"
    by (cases "seal db sess q now") auto
  note p = quiz_answers_seal[OF s]
  have r: "quiz_results db sess user qid now = ((db', sess'), Inr (results_display db' q'))"
    using assms(1) False s by (simp add: quiz_results_def)
  show ?thesis using p unfolding assms(2) r
    by (simp add: results_display_def get_score_breakdown_def Let_def)
qed

theorem unattempted_count_unchecked_witness:
  "find (\<lambda>r. quiz_id r = 2 \<and> quiz_user r = 7) (quizzes ex_db) = Some (ex_quiz 2 4 False)
   \<and> \<not> isl (snd (quiz_results ex_db ex_session 7 2 9))
   \<and> ctx_unattempted_count (projr (snd (quiz_results ex_db ex_session 7 2 9))) = 0"
proof -
  have l: "length (quiz_answers ex_db (ex_quiz 2 4 False)) = 4" "total_questions (ex_quiz 2 4 False) = 4"
    by (simp_all add: quiz_answers_def ex_db_def ex_quiz_def ex_answer_def)
  from unattempted_count_unchecked[OF ex_find2 refl, of ex_session 9] show ?thesis using ex_find2 by (simp add: l)
qed

text \<open>
  Claim C7 as stated fails: quiz 4 of the example has one question and two stored answers;
  \<open>quiz_results\<close> raises nothing, reports the unattempted count -1 and stores the score 0.
\<close>

theorem negative_unattempted_count_scored:
  "total_questions (ex_quiz 4 1 False) = 1
   \<and> length (quiz_answers ex_db (ex_quiz 4 1 False)) = 2
   \<and> unattempted_count (get_score_breakdown ex_db (ex_quiz 4 1 False)) = - 1
   \<and> \<not> isl (snd (quiz_results ex_db ex_session 7 4 9))
   \<and> ctx_unattempted_count (projr (snd (quiz_results ex_db ex_session 7 4 9))) = - 1
   \<and> score (ctx_quiz (projr (snd (quiz_results ex_db ex_session 7 4 9)))) = Some 0"
  by (simp add: quiz_results_def seal_def results_display_def get_score_breakdown_def save_quiz_def
        quiz_answers_def ex_db_def ex_quiz_def ex_answer_def Let_def)

section \<open>The quiz session\<close>

text \<open>
  Claim C6. Any request to \<open>take_quiz\<close> (a GET, or a POST with whatever action: submit,
  mark for review, clear answer, jump) on a completed quiz is answered with Http404, and
  the database (answers, statuses, score, completion flag) and the session (cursor) are
  returned as they were. Quiz ids are primary keys.
\<close>

theorem completed_quiz_rejected:
  assumes "distinct (map quiz_id (quizzes db))" and "q \<in> set (quizzes db)" and "is_completed q"
  shows "take_quiz py db sess user (quiz_id q) req = ((db, sess), Inl Http404)"
proof (cases "find (\<lambda>r. quiz_id r = quiz_id q \<and> quiz_user r = user \<and> \<not> is_completed r) (quizzes db)")
  case None
  then show ?thesis by (simp add: take_quiz_def)
next
  case (Some z)
  from distinct_find_unique[OF assms(1,2) Some] have "z = q" .
  with find_Some_props[OF Some] assms(3) show ?thesis by simp
qed

theorem completed_quiz_rejected_witness:
  "distinct (map quiz_id (quizzes ex_db)) \<and> ex_quiz 3 1 True \<in> set (quizzes ex_db)
   \<and> is_completed (ex_quiz 3 1 True)
   \<and> take_quiz ascii_python ex_db ex_session 7 3 (POST (next_post ''C'')) = ((ex_db, ex_session), Inl Http404)
   \<and> take_quiz ascii_python ex_db ex_session 7 3 (POST (jump_post 0)) = ((ex_db, ex_session), Inl Http404)"
proof -
  have h: "distinct (map quiz_id (quizzes ex_db))" "ex_quiz 3 1 True \<in> set (quizzes ex_db)"
    "is_completed (ex_quiz 3 1 True)"
    by (simp_all add: ex_db_def ex_quiz_def)
  have i: "quiz_id (ex_quiz 3 1 True) = 3" by (simp add: ex_quiz_def)
  from completed_quiz_rejected[where py = ascii_python and sess = ex_session and user = 7, OF h] h show ?thesis unfolding i by simp
qed



text \<open>
  Claim C9, as the code has it. After an answer is submitted, the one stored answer row of
  the question holds the posted answer stripped of its surrounding blanks, and the flag
  \<open>is_correct\<close>, which is true exactly when that stripped answer and the correct-answer
  label, which is not stripped, have the same lower-case form. On strings whose lower-case
  form is the ASCII one, this is equality up to case of the stripped answer and the label.
  The question has at most one answer row before.
\<close>

theorem is_correct_lower_of_stripped:
  assumes "at_question db sess user qid qz ids cur qn"
    and "posted_action post = ''next''"
    and "post_answer post = Some raw"
    and "str_strip py raw \<noteq> []"
    and "get_answer db qid (question_id qn) = Inr x"
  shows "map (\<lambda>a. (user_answer a, is_correct a))
           (filter (\<lambda>a. answer_quiz a = qid \<and> answer_question a = question_id qn)
              (answers (fst (fst (take_quiz py db sess user qid (POST post))))))
         = [(str_strip py raw,
             str_lower py (str_strip py raw) = str_lower py (correct_answer qn))]
       \<and> (str_lower py (str_strip py raw) = ascii_lower (str_strip py raw)
            \<and> str_lower py (correct_answer qn) = ascii_lower (correct_answer qn) \<longrightarrow>
          (str_lower py (str_strip py raw) = str_lower py (correct_answer qn))
            = equal_up_to_case (str_strip py raw) (correct_answer qn))"
proof -
  have p: "posted_answer py post = str_strip py raw"
    using assms(3) by (simp add: posted_answer_def)
  have n: "posted_answer py post \<noteq> []" unfolding p by (rule assms(4))
  from stored_answer_after_submit[OF assms(1,2) n assms(5)]
  have a: "map (\<lambda>a. (user_answer a, is_correct a))
           (filter (\<lambda>a. answer_quiz a = qid \<and> answer_question a = question_id qn)
              (answers (fst (fst (take_quiz py db sess user qid (POST post))))))
         = [(str_strip py raw,
             str_lower py (str_strip py raw) = str_lower py (correct_answer qn))]"
    unfolding p .
  have b: "(str_lower py (str_strip py raw) = str_lower py (correct_answer qn))
            = equal_up_to_case (str_strip py raw) (correct_answer qn)"
    if "str_lower py (str_strip py raw) = ascii_lower (str_strip py raw)
          \<and> str_lower py (correct_answer qn) = ascii_lower (correct_answer qn)"
    using that by (simp add: ascii_lower_eq_iff)
  from a b show ?thesis by blast
qed

theorem is_correct_lower_of_stripped_witness:
  "at_question ex_db ex_session 7 1 (ex_quiz 1 2 False) [1, 2] 0 (ex_questions ! 0)
   \<and> posted_action (next_post '' c '') = ''next''
   \<and> post_answer (next_post '' c '') = Some '' c ''
   \<and> str_strip ascii_python '' c '' = ''c''
   \<and> get_answer ex_db 1 (question_id (ex_questions ! 0)) = Inr None
   \<and> str_lower ascii_python ''c'' = ascii_lower ''c''
   \<and> str_lower ascii_python (correct_answer (ex_questions ! 0)) = ascii_lower ''C''
   \<and> equal_up_to_case ''c'' ''C''
   \<and> map (\<lambda>a. (user_answer a, is_correct a))
        (filter (\<lambda>a. answer_quiz a = 1 \<and> answer_question a = question_id (ex_questions ! 0))
           (answers (fst (fst (take_quiz ascii_python ex_db ex_session 7 1
                                 (POST (next_post '' c '')))))))
      = [(''c'', True)]"
proof -
  have s: "str_strip ascii_python '' c '' = ''c''"
    by (simp add: ascii_python_def ex_ascii_strip)
  have n: "str_strip ascii_python '' c '' \<noteq> []" unfolding s by simp
  have g: "get_answer ex_db 1 (question_id (ex_questions ! 0)) = Inr None"
    by (simp add: ex_question_1 ex_get_answer)
  have l: "str_lower ascii_python ''c'' = ascii_lower ''c''"
    "str_lower ascii_python (correct_answer (ex_questions ! 0)) = ascii_lower ''C''"
    by (simp_all add: ascii_python_def ex_question_1)
  have e: "equal_up_to_case ''c'' ''C''"
    by (simp add: equal_up_to_case_def same_letter_def ascii_isupper_def)
  note t = is_correct_lower_of_stripped[where py = ascii_python,
             OF ex_at_question ex_next_post(1) ex_next_post(3) n g, unfolded s]
  from t have r: "map (\<lambda>a. (user_answer a, is_correct a))
        (filter (\<lambda>a. answer_quiz a = 1 \<and> answer_question a = question_id (ex_questions ! 0))
           (answers (fst (fst (take_quiz ascii_python ex_db ex_session 7 1
                                 (POST (next_post '' c '')))))))
      = [(''c'', str_lower ascii_python ''c'' = str_lower ascii_python (correct_answer (ex_questions ! 0)))]"
    by (elim conjE)
  from t l have "(str_lower ascii_python ''c'' = str_lower ascii_python (correct_answer (ex_questions ! 0)))
                  = equal_up_to_case ''c'' (correct_answer (ex_questions ! 0))"
    by (elim conjE) (erule mp, simp add: ex_question_1)
  with e have c: "str_lower ascii_python ''c'' = str_lower ascii_python (correct_answer (ex_questions ! 0))"
    by (simp add: ex_question_1)
  have r': "map (\<lambda>a. (user_answer a, is_correct a))
        (filter (\<lambda>a. answer_quiz a = 1 \<and> answer_question a = question_id (ex_questions ! 0))
           (answers (fst (fst (take_quiz ascii_python ex_db ex_session 7 1
                                 (POST (next_post '' c '')))))))
      = [(''c'', True)]"
    unfolding r using c by simp
  from ex_at_question ex_next_post(1)[of "'' c ''"] ex_next_post(3)[of "'' c ''"] s g l e r'
  show ?thesis by (intro conjI)
qed

text \<open>
  Claim C9 as stated fails in both directions, because the view strips the answer and not
  the label. The answer \<open>C\<close> followed by a blank, posted for a question whose label is the
  very same string, is stored as incorrect; and the answer \<open>c\<close> followed by a blank, which
  differs from the label \<open>C\<close> by more than case, is stored as correct. On these ASCII strings
  \<open>ascii_python\<close> is what Python computes.
\<close>

theorem answer_equal_to_label_stored_incorrect:
  "correct_answer ex_blank_question = ''C ''
   \<and> equal_up_to_case ''C '' (correct_answer ex_blank_question)
   \<and> map (\<lambda>a. (user_answer a, is_correct a))
        (filter (\<lambda>a. answer_quiz a = 1 \<and> answer_question a = question_id ex_blank_question)
           (answers (fst (fst (take_quiz ascii_python ex_db_blank_label ex_session 7 1
                                 (POST (next_post ''C '')))))))
      = [(''C'', False)]
   \<and> correct_answer (ex_questions ! 0) = ''C''
   \<and> \<not> equal_up_to_case ''c '' (correct_answer (ex_questions ! 0))
   \<and> map (\<lambda>a. (user_answer a, is_correct a))
        (filter (\<lambda>a. answer_quiz a = 1 \<and> answer_question a = question_id (ex_questions ! 0))
           (answers (fst (fst (take_quiz ascii_python ex_db ex_session 7 1
                                 (POST (next_post ''c '')))))))
      = [(''c'', True)]"
proof -
  have q: "correct_answer ex_blank_question = ''C ''" "question_id ex_blank_question = Suc 0"
    by (simp_all add: ex_blank_question_def)
  have e1: "equal_up_to_case ''C '' (correct_answer ex_blank_question)"
    unfolding q by (simp add: equal_up_to_case_def same_letter_def)
  have g1: "get_answer ex_db_blank_label 1 (question_id ex_blank_question) = Inr None"
    by (simp add: q get_answer_def ex_db_blank_label_def ex_db_def ex_answer_def)
  have n1: "posted_answer ascii_python (next_post ''C '') \<noteq> []"
    by (simp add: ex_next_post ex_ascii_strip)
  have l1: "(str_lower ascii_python ''C'' = str_lower ascii_python ''C '') = False"
    by (simp add: ascii_python_def ascii_lower_def)
  from stored_answer_after_submit[OF ex_at_question_blank ex_next_post(1) n1 g1]
  have r1: "map (\<lambda>a. (user_answer a, is_correct a))
        (filter (\<lambda>a. answer_quiz a = 1 \<and> answer_question a = question_id ex_blank_question)
           (answers (fst (fst (take_quiz ascii_python ex_db_blank_label ex_session 7 1
                                 (POST (next_post ''C '')))))))
      = [(''C'', False)]"
    unfolding ex_next_post ex_ascii_strip q(1) l1 .
  have c: "correct_answer (ex_questions ! 0) = ''C''" by (simp add: ex_questions_def)
  have e2: "\<not> equal_up_to_case ''c '' (correct_answer (ex_questions ! 0))"
    unfolding c by (simp add: equal_up_to_case_def)
  have g2: "get_answer ex_db 1 (question_id (ex_questions ! 0)) = Inr None"
    by (simp add: ex_question_1 ex_get_answer)
  have n2: "posted_answer ascii_python (next_post ''c '') \<noteq> []"
    by (simp add: ex_next_post ex_ascii_strip)
  have "equal_up_to_case ''c'' ''C''"
    by (simp add: equal_up_to_case_def same_letter_def ascii_isupper_def)
  then have l2: "(str_lower ascii_python ''c'' = str_lower ascii_python ''C'') = True"
    by (simp add: ascii_python_def ascii_lower_eq_iff)
  from stored_answer_after_submit[OF ex_at_question ex_next_post(1) n2 g2]
  have r2: "map (\<lambda>a. (user_answer a, is_correct a))
        (filter (\<lambda>a. answer_quiz a = 1 \<and> answer_question a = question_id (ex_questions ! 0))
           (answers (fst (fst (take_quiz ascii_python ex_db ex_session 7 1
                                 (POST (next_post ''c '')))))))
      = [(''c'', True)]"
    unfolding ex_next_post ex_ascii_strip c l2 .
  from q(1) e1 r1 c e2 r2 show ?thesis by (intro conjI)
qed

text \<open>
  Claim C10. \<open>clear_answer\<close> on a question without a status record creates the record with
  the value \<open>unattempted\<close>; on a question whose status is \<open>marked_for_review\<close> it leaves the
  status as it is. The question has at most one answer row.
\<close>

theorem clear_answer_status:
  assumes "at_question db sess user qid qz ids cur qn"
    and "posted_action post = ''clear_answer''"
    and "get_answer db qid (question_id qn) = Inr x"
  shows "(question_statuses db (qid, question_id qn) = None \<longrightarrow>
            question_statuses (fst (fst (take_quiz py db sess user qid (POST post))))
              (qid, question_id qn) = Some unattempted)
       \<and> (question_statuses db (qid, question_id qn) = Some marked_for_review \<longrightarrow>
            question_statuses (fst (fst (take_quiz py db sess user qid (POST post))))
              (qid, question_id qn) = Some marked_for_review)"
proof -
  from assms(1) have id: "quiz_id qz = qid"
    by (auto simp: at_question_def dest: find_Some_props)
  from clear_answer_result[OF assms(3)] obtain db1 msg where
    c: "clear_answer db qid (question_id qn) = Inr (db1, msg)"
    and st: "question_statuses db1 (qid, question_id qn) =
             question_statuses (clear_status db qid (question_id qn)) (qid, question_id qn)"
    by (elim exE conjE)
  have hp: "fst (fst (handle_post py db sess qz qn ids cur post)) = db1"
    using assms(2) id c by (simp add: handle_post_def Let_def)
  show ?thesis
    unfolding take_quiz_at[OF assms(1)] request.case hp st statuses_clear_status
    by (auto split: option.splits)
qed

theorem clear_answer_status_witness:
  "at_question ex_db ex_session 7 1 (ex_quiz 1 2 False) [1, 2] 0 (ex_questions ! 0)
   \<and> question_statuses ex_db (1, 1) = None
   \<and> question_statuses
        (fst (fst (take_quiz ascii_python ex_db ex_session 7 1 (POST (action_post ''clear_answer''))))) (1, 1)
      = Some unattempted
   \<and> question_statuses
        (fst (fst (take_quiz ascii_python (set_status ex_db 1 1 marked_for_review) ex_session 7 1
                     (POST (action_post ''clear_answer''))))) (1, 1)
      = Some marked_for_review"
proof -
  have a: "posted_action (action_post ''clear_answer'') = ''clear_answer''"
    by (simp add: action_post_def posted_action_def)
  have n: "question_statuses ex_db (1, 1) = None" by (simp add: ex_db_def)
  have m: "question_statuses (set_status ex_db 1 1 marked_for_review) (1, 1) = Some marked_for_review"
    by (simp add: set_status_def)
  have g: "get_answer ex_db 1 (question_id (ex_questions ! 0)) = Inr None"
    "get_answer (set_status ex_db 1 1 marked_for_review) 1 (question_id (ex_questions ! 0)) = Inr None"
    by (simp_all add: ex_question_1 ex_get_answer)
  from clear_answer_status[where py = ascii_python, OF ex_at_question a g(1)]
       clear_answer_status[where py = ascii_python, OF ex_at_question_status a g(2)]
  show ?thesis using ex_at_question n m by (simp add: ex_question_1)
qed

text \<open>
  Claim C2, as the code has it. For every pair of the transition table the resulting status
  is the one of the table; and no pair of a status and an action, in the table or not, is
  rejected: the view raises nothing. The question has at most one answer row, and a
  submitted answer is not blank.
\<close>

theorem transition_table_followed:
  assumes "at_question db sess user qid qz ids cur qn"
    and "posted_action post = action_name a"
    and "a = Submit_answer \<longrightarrow> posted_answer py post \<noteq> []"
    and "get_answer db qid (question_id qn) = Inr x"
  shows "(\<forall>s'. spec_transition (current_status db qid (question_id qn)) a = Some s' \<longrightarrow>
            question_statuses (fst (fst (take_quiz py db sess user qid (POST post))))
              (qid, question_id qn) = Some s')
       \<and> \<not> isl (snd (take_quiz py db sess user qid (POST post)))"
proof -
  from assms(1) have id: "quiz_id qz = qid"
    by (auto simp: at_question_def dest: find_Some_props)
  let ?k = "question_id qn"
  show ?thesis
  proof (cases a)
    case Submit_answer
    with assms(3) have ne: "posted_answer py post \<noteq> []" by simp
    from submit_answer_result[OF assms(4), where ua = "posted_answer py post" and py = py] obtain db1 where
      c: "submit_answer py db qid qn (posted_answer py post) = Inr db1"
      and st: "question_statuses db1 (qid, ?k) = question_statuses (submit_status db qid ?k) (qid, ?k)"
      by (elim exE conjE)
    have hp: "fst (fst (handle_post py db sess qz qn ids cur post)) = db1"
      "\<not> isl (snd (handle_post py db sess qz qn ids cur post))"
      using assms(2) Submit_answer ne id c by (simp_all add: handle_post_def Let_def)
    show ?thesis
      unfolding take_quiz_at[OF assms(1)] request.case hp st statuses_submit_status
      using Submit_answer hp(2)
      by (cases "question_statuses db (qid, ?k)"; cases "current_status db qid ?k")
         (auto simp: current_status_def)
  next
    case Mark_for_review
    have g: "get_answer (mark_status db qid ?k) (quiz_id qz) ?k = Inr x"
      using assms(4) id by (simp add: mark_status_def split: option.splits)
    from render_ok[OF g] have r: "\<not> isl (render_take_quiz (mark_status db qid ?k) qz qn ids cur msgs)" for msgs
      by (metis sum.disc(2))
    have hp: "fst (fst (handle_post py db sess qz qn ids cur post)) = mark_status db qid ?k"
      "\<not> isl (snd (handle_post py db sess qz qn ids cur post))"
      using assms(2) Mark_for_review id r by (simp_all add: handle_post_def Let_def)
    show ?thesis
      unfolding take_quiz_at[OF assms(1)] request.case hp statuses_mark_status
      using Mark_for_review hp(2)
      by (cases "question_statuses db (qid, ?k)"; cases "current_status db qid ?k")
         (auto simp: current_status_def)
  next
    case Clear_answer
    from clear_answer_result[OF assms(4)] obtain db1 msg where
      c: "clear_answer db qid ?k = Inr (db1, msg)"
      and st: "question_statuses db1 (qid, ?k) = question_statuses (clear_status db qid ?k) (qid, ?k)"
      and g: "get_answer db1 qid ?k = Inr None"
      by (elim exE conjE)
    from g id have g': "get_answer db1 (quiz_id qz) ?k = Inr None" by simp
    from render_ok[OF g'] have r: "\<not> isl (render_take_quiz db1 qz qn ids cur msgs)" for msgs
      by (metis sum.disc(2))
    have hp: "fst (fst (handle_post py db sess qz qn ids cur post)) = db1"
      "\<not> isl (snd (handle_post py db sess qz qn ids cur post))"
      using assms(2) Clear_answer id c r by (simp_all add: handle_post_def Let_def)
    show ?thesis
      unfolding take_quiz_at[OF assms(1)] request.case hp st statuses_clear_status
      using Clear_answer hp(2)
      by (cases "question_statuses db (qid, ?k)"; cases "current_status db qid ?k")
         (auto simp: current_status_def)
  qed
qed

theorem transition_table_followed_witness:
  "at_question (set_status ex_db 1 1 attempted) ex_session 7 1 (ex_quiz 1 2 False) [1, 2] 0
     (ex_questions ! 0)
   \<and> current_status (set_status ex_db 1 1 attempted) 1 1 = attempted
   \<and> spec_transition attempted Mark_for_review = Some answered_and_marked
   \<and> question_statuses
        (fst (fst (take_quiz ascii_python (set_status ex_db 1 1 attempted) ex_session 7 1
                     (POST (action_post ''mark_for_review''))))) (1, 1)
      = Some answered_and_marked
   \<and> \<not> isl (snd (take_quiz ascii_python (set_status ex_db 1 1 attempted) ex_session 7 1
                    (POST (action_post ''mark_for_review''))))"
proof -
  have a: "posted_action (action_post ''mark_for_review'') = action_name Mark_for_review"
    by (simp add: action_post_def posted_action_def)
  have c: "current_status (set_status ex_db 1 1 attempted) 1 1 = attempted"
    by (simp add: current_status_def set_status_def)
  have g: "get_answer (set_status ex_db 1 1 attempted) 1 (question_id (ex_questions ! 0)) = Inr None"
    by (simp add: ex_question_1 ex_get_answer)
  have s: "Mark_for_review = Submit_answer \<longrightarrow> posted_answer ascii_python (action_post ''mark_for_review'') \<noteq> []"
    by simp
  from transition_table_followed[where py = ascii_python, OF ex_at_question_status a s g]
  show ?thesis using ex_at_question_status[of 1 1 attempted] c by (simp add: ex_question_1)
qed

text \<open>
  Claim C2 as stated fails: marking a question whose status is \<open>marked_for_review\<close> is not
  in the table, yet the view raises nothing and answers with the question page; the status
  stays \<open>marked_for_review\<close>.
\<close>

theorem unlisted_transition_not_rejected:
  "spec_transition marked_for_review Mark_for_review = None
   \<and> current_status (set_status ex_db 1 1 marked_for_review) 1 1 = marked_for_review
   \<and> \<not> isl (snd (take_quiz ascii_python (set_status ex_db 1 1 marked_for_review) ex_session 7 1
                    (POST (action_post ''mark_for_review''))))
   \<and> question_statuses
        (fst (fst (take_quiz ascii_python (set_status ex_db 1 1 marked_for_review) ex_session 7 1
                     (POST (action_post ''mark_for_review''))))) (1, 1)
      = Some marked_for_review"
proof -
  have a: "posted_action (action_post ''mark_for_review'') = ''mark_for_review''"
    by (simp add: action_post_def posted_action_def)
  have i: "quiz_id (ex_quiz (Suc 0) 2 False) = Suc 0" by (simp add: ex_quiz_def)
  have q: "question_id (ex_questions ! 0) = Suc 0" by (simp add: ex_questions_def)
  have g: "get_answer (mark_status (set_status ex_db (Suc 0) (Suc 0) marked_for_review)
                         (Suc 0) (Suc 0)) (Suc 0) (Suc 0) = Inr None"
    by (simp add: mark_status_def ex_get_answer split: option.split)
  have r: "\<not> isl (render_take_quiz
                   (mark_status (set_status ex_db (Suc 0) (Suc 0) marked_for_review) (Suc 0) (Suc 0))
                   (ex_quiz (Suc 0) 2 False) (ex_questions ! 0) [Suc 0, 2] 0 msgs)" for msgs
    unfolding render_take_quiz_def Let_def i q g by simp
  have m: "question_statuses
             (mark_status (set_status ex_db (Suc 0) (Suc 0) marked_for_review) (Suc 0) (Suc 0))
             (Suc 0, Suc 0) = Some marked_for_review"
    by (simp add: statuses_mark_status set_status_def)
  have c: "current_status (set_status ex_db (Suc 0) (Suc 0) marked_for_review) (Suc 0) (Suc 0)
             = marked_for_review"
    by (simp add: current_status_def set_status_def)
  have h: "handle_post ascii_python (set_status ex_db (Suc 0) (Suc 0) marked_for_review) ex_session
             (ex_quiz (Suc 0) 2 False) (ex_questions ! 0) [Suc 0, 2] 0
             (action_post ''mark_for_review'') =
           ((mark_status (set_status ex_db (Suc 0) (Suc 0) marked_for_review) (Suc 0) (Suc 0),
             ex_session),
            render_take_quiz
              (mark_status (set_status ex_db (Suc 0) (Suc 0) marked_for_review) (Suc 0) (Suc 0))
              (ex_quiz (Suc 0) 2 False) (ex_questions ! 0) [Suc 0, 2] 0
              [Question_marked_for_review])"
    unfolding handle_post_def Let_def a i q by simp
  have t: "take_quiz ascii_python (set_status ex_db (Suc 0) (Suc 0) marked_for_review) ex_session 7 (Suc 0)
             (POST (action_post ''mark_for_review'')) =
           ((mark_status (set_status ex_db (Suc 0) (Suc 0) marked_for_review) (Suc 0) (Suc 0),
             ex_session),
            render_take_quiz
              (mark_status (set_status ex_db (Suc 0) (Suc 0) marked_for_review) (Suc 0) (Suc 0))
              (ex_quiz (Suc 0) 2 False) (ex_questions ! 0) [Suc 0, 2] 0
              [Question_marked_for_review])"
    using take_quiz_at[where py = ascii_python
                         and req = "POST (action_post ''mark_for_review'')",
                       OF ex_at_question_status[of "Suc 0" "Suc 0" marked_for_review]] h
    by simp
  show ?thesis
    unfolding One_nat_def t using r m c by simp
qed

section \<open>Starting a quiz\<close>

lemma pool_step:
  assumes "j < length pool"
  shows "add_mset (pool ! j) (mset (butlast (pool[j := last pool]))) = mset pool"
proof -
  from assms have ne: "pool \<noteq> []" by auto
  define xs l where "xs = butlast pool" and "l = last pool"
  with ne have p: "pool = xs @ [l]" by simp
  show ?thesis
  proof (cases "j < length xs")
    case True
    have "butlast (pool[j := last pool]) = xs[j := l]"
      using True unfolding p by (simp add: list_update_append)
    moreover have "pool ! j = xs ! j" using True unfolding p by (simp add: nth_append)
    moreover have "xs ! j \<in># mset xs" using True by simp
    ultimately show ?thesis using True unfolding p by (simp add: mset_update)
  next
    case False
    with assms have j: "j = length xs" unfolding p by simp
    have "pool[j := last pool] = pool" unfolding p j by simp
    moreover have "pool ! j = l" unfolding p j by simp
    ultimately show ?thesis unfolding p by simp
  qed
qed

lemma sample_pool_mset:
  "k \<le> length pool \<Longrightarrow>
     length (sample_pool rnd i pool k) = k \<and> mset (sample_pool rnd i pool k) \<subseteq># mset pool"
proof (induction k arbitrary: pool i)
  case 0
  then show ?case by simp
next
  case (Suc k)
  from Suc.prems have ne: "0 < length pool" by auto
  let ?j = "rnd i mod length pool"
  let ?pool' = "butlast (pool[?j := last pool])"
  have j: "?j < length pool" using ne by simp
  have l: "k \<le> length ?pool'" using Suc.prems by simp
  from Suc.IH[OF l, of "Suc i"]
  have ih: "length (sample_pool rnd (Suc i) ?pool' k) = k"
    "mset (sample_pool rnd (Suc i) ?pool' k) \<subseteq># mset ?pool'" by auto
  have "add_mset (pool ! ?j) (mset (sample_pool rnd (Suc i) ?pool' k))
          \<subseteq># add_mset (pool ! ?j) (mset ?pool')"
    using ih(2) by simp
  then show ?case using ih(1) pool_step[OF j] by (simp add: Let_def)
qed

lemma distinct_map_mset_subseteq:
  assumes "mset xs \<subseteq># mset ys" "distinct (map f ys)"
  shows "distinct (map f xs)"
proof -
  from assms(1) have "image_mset f (mset xs) \<subseteq># image_mset f (mset ys)"
    by (rule image_mset_subseteq_mono)
  then have s: "mset (map f xs) \<subseteq># mset (map f ys)" by simp
  have "count (mset (map f xs)) a \<le> 1" for a
  proof -
    have "count (mset (map f xs)) a \<le> count (mset (map f ys)) a"
      using s by (rule mset_subset_eq_count)
    also have "\<dots> \<le> 1" using assms(2) by (simp add: distinct_count_atmost_1)
    finally show ?thesis .
  qed
  then show ?thesis unfolding distinct_count_atmost_1
    by (metis count_mset_0_iff le_antisym not_less_eq_eq One_nat_def le_zero_eq nat_le_linear count_greater_eq_one_iff)
qed

lemma distinct_get_questions:
  "distinct (map question_id (questions db)) \<Longrightarrow>
     distinct (map question_id (get_questions_for_source db src d))"
  by (cases src) (auto simp: filter_difficulty_def distinct_map_filter)

lemma set_get_questions:
  "set (get_questions_for_source db src d) =
     {q \<in> set (get_questions_for_source db src ''all''). d = ''all'' \<or> difficulty q = d}"
  by (cases src) (auto simp: filter_difficulty_def)

lemma set_get_questions_scope:
  "set (get_questions_for_source db src d) =
     {q \<in> set (questions db).
        (case src of Chapter_source c \<Rightarrow> question_chapter q = c
                         | Book_source b \<Rightarrow>
                             (\<exists>ch\<in>set (chapters db).
                                chapter_id ch = question_chapter q \<and> chapter_book ch = b)
                         | No_source \<Rightarrow> False)
        \<and> (d = ''all'' \<or> difficulty q = d)}"
  by (cases src) (auto simp: filter_difficulty_def in_book_def list_ex_iff)

lemma start_url_well_formed:
  assumes "well_formed_post db route post n"
  shows "\<exists>dur. map_of duration_choices (sp_duration_minutes post) = Some dur \<and>
     start_url rnd db sess user route now (Start_POST post) =
       (if 0 < length (get_questions_for_source db (route_source route) (sp_difficulty post))
           \<and> int (length (get_questions_for_source db (route_source route) (sp_difficulty post))) < n
        then ((db, sess),
              Inr (render_start_quiz db (route_source route)
                     [availability_error route
                        (length (get_questions_for_source db (route_source route) (sp_difficulty post)))
                        (sp_difficulty post)] []))
        else create_and_sample rnd db sess user (route_source route) now n (sp_difficulty post) dur)"
proof -
  from assms have w: "route_exists db route" "own_form route post"
    "sp_num_questions post = Posted n" "1 \<le> n" "n \<le> 50"
    "sp_difficulty post \<in> set [''all'', ''easy'', ''medium'', ''hard'']"
    "sp_duration_minutes post \<in> set (map fst duration_choices)"
    by (simp_all add: well_formed_post_def)
  from w(7) obtain dur where dur: "map_of duration_choices (sp_duration_minutes post) = Some dur"
    by (cases "map_of duration_choices (sp_duration_minutes post)")
       (auto simp: map_of_eq_None_iff)
  have df: "clean_choice ''difficulty'' [''all'', ''easy'', ''medium'', ''hard''] (sp_difficulty post)
              = (Some (sp_difficulty post), [])"
    using w(6) by (simp only: clean_choice_def if_True)
  have du: "clean_choice ''duration_minutes'' (map fst duration_choices) (sp_duration_minutes post)
              = (Some (sp_duration_minutes post), [])"
    using w(7) by (simp only: clean_choice_def if_True)
  have nq: "clean_num_questions (sp_num_questions post) = (Some n, [])"
    using w(3,4,5) by (simp add: clean_num_questions_def)
  have n0: "n \<noteq> 0" using w(4) by simp
  let ?errs = "\<lambda>src. if 0 < length (get_questions_for_source db src (sp_difficulty post))
                       \<and> int (length (get_questions_for_source db src (sp_difficulty post))) < n
                    then [availability_error route
                            (length (get_questions_for_source db src (sp_difficulty post)))
                            (sp_difficulty post)]
                    else []"
  show ?thesis
  proof (cases route)
    case (Start_chapter c)
    with w(1,2) have e: "c \<in> set (map chapter_id (chapters db))"
      "sp_quiz_type post = ''chapter''" "sp_chapter post = Posted (int c)" "sp_book post = Absent"
      by (simp_all add: route_exists_def own_form_def)
    let ?cd = "\<lparr> cd_quiz_type = Some ''chapter'', cd_chapter = Some c, cd_book = None,
           cd_num_questions = Some n, cd_difficulty = Some (sp_difficulty post),
           cd_duration_minutes = Some (sp_duration_minutes post) \<rparr>"
    have cf: "clean_fields [c] (books db) post = (?cd, [])"
      unfolding clean_fields_def df du nq e(2,3,4)
      by (simp add: clean_choice_def clean_model_choice_def)
    have cl: "(case clean db ?cd of None \<Rightarrow> [] | Some e \<Rightarrow> [e]) = ?errs (Chapter_source c)"
      using n0 by (simp add: clean_def Let_def availability_error_def Start_chapter)
    have fc: "full_clean db [c] (books db) post = (?cd, ?errs (Chapter_source c))"
      unfolding full_clean_def cf using cl by simp
    have sf: "start_for rnd db sess user (Chapter_source c) [c] (books db) now (Start_POST post) =
       (if ?errs (Chapter_source c) \<noteq> []
        then ((db, sess), Inr (render_start_quiz db (Chapter_source c) (?errs (Chapter_source c)) []))
        else create_and_sample rnd db sess user (Chapter_source c) now n (sp_difficulty post) dur)"
      unfolding start_for_def start_request.case fc prod.case using dur by simp
    have "start_url rnd db sess user route now (Start_POST post) =
       start_for rnd db sess user (Chapter_source c) [c] (books db) now (Start_POST post)"
      unfolding Start_chapter start_url.simps start_quiz_def using e(1) by simp
    then show ?thesis unfolding sf using dur by (simp add: Start_chapter)
  next
    case (Start_book b)
    with w(1,2) have e: "b \<in> set (books db)"
      "sp_quiz_type post = ''book''" "sp_book post = Posted (int b)" "sp_chapter post = Absent"
      by (simp_all add: route_exists_def own_form_def)
    let ?cd = "\<lparr> cd_quiz_type = Some ''book'', cd_chapter = None, cd_book = Some b,
           cd_num_questions = Some n, cd_difficulty = Some (sp_difficulty post),
           cd_duration_minutes = Some (sp_duration_minutes post) \<rparr>"
    have cf: "clean_fields (map chapter_id (chapters db)) [b] post = (?cd, [])"
      unfolding clean_fields_def df du nq e(2,3,4)
      by (simp add: clean_choice_def clean_model_choice_def)
    have cl: "(case clean db ?cd of None \<Rightarrow> [] | Some e \<Rightarrow> [e]) = ?errs (Book_source b)"
      using n0 by (simp add: clean_def Let_def availability_error_def Start_book)
    have fc: "full_clean db (map chapter_id (chapters db)) [b] post = (?cd, ?errs (Book_source b))"
      unfolding full_clean_def cf using cl by simp
    have sf: "start_for rnd db sess user (Book_source b) (map chapter_id (chapters db)) [b] now
                (Start_POST post) =
       (if ?errs (Book_source b) \<noteq> []
        then ((db, sess), Inr (render_start_quiz db (Book_source b) (?errs (Book_source b)) []))
        else create_and_sample rnd db sess user (Book_source b) now n (sp_difficulty post) dur)"
      unfolding start_for_def start_request.case fc prod.case using dur by simp
    have "start_url rnd db sess user route now (Start_POST post) =
       start_for rnd db sess user (Book_source b) (map chapter_id (chapters db)) [b] now
         (Start_POST post)"
      unfolding Start_book start_url.simps start_book_quiz_def using e(1) by simp
    then show ?thesis unfolding sf using dur by (simp add: Start_book)
  qed
qed

lemma clean_fields_valid:
  assumes "clean_fields cq bq post = (cd, [])" "sp_num_questions post = Posted n"
  shows "cd_num_questions cd = Some n \<and> cd_difficulty cd = Some (sp_difficulty post)"
  using assms
  by (auto simp: clean_fields_def clean_choice_def clean_num_questions_def
           split: prod.splits if_splits)

lemma create_and_sample_insufficient:
  "int (length (get_questions_for_source db src d)) < n \<Longrightarrow>
     create_and_sample rnd db sess user src now n d dur =
       ((db, sess),
        Inr (render_start_quiz db src []
               [Only_questions_available (length (get_questions_for_source db src d))]))"
  by (simp add: create_and_sample_def Let_def)

lemma start_for_insufficient:
  assumes "sp_num_questions post = Posted n"
    and "int (length (get_questions_for_source db src (sp_difficulty post))) < n"
  shows "fst (start_for rnd db sess user src cq bq now (Start_POST post)) = (db, sess)
       \<and> (\<forall>q. snd (start_for rnd db sess user src cq bq now (Start_POST post))
                 \<noteq> Inr (Start_redirect_take_quiz q))"
proof -
  obtain cd errs where fc: "full_clean db cq bq post = (cd, errs)"
    by (cases "full_clean db cq bq post") auto
  show ?thesis
  proof (cases "errs = []")
    case False
    with fc show ?thesis by (simp add: start_for_def render_start_quiz_def Let_def)
  next
    case True
    with fc have "clean_fields cq bq post = (cd, [])"
      by (auto simp: full_clean_def split: prod.splits)
    from clean_fields_valid[OF this assms(1)]
    have c: "cd_num_questions cd = Some n" "cd_difficulty cd = Some (sp_difficulty post)" by auto
    show ?thesis
      unfolding start_for_def using fc True c create_and_sample_insufficient[OF assms(2)]
      by (simp add: render_start_quiz_def Let_def split: option.splits)
  qed
qed

lemma ex_post_well_formed:
  "1 \<le> n \<Longrightarrow> n \<le> 50 \<Longrightarrow> c \<in> {1, 2} \<Longrightarrow> d \<in> set [''all'', ''easy'', ''medium'', ''hard''] \<Longrightarrow>
     well_formed_post ex_db (Start_chapter c) (ex_post ''chapter'' c n d) n"
  by (auto simp: well_formed_post_def route_exists_def own_form_def ex_post_def ex_db_def
        duration_choices_def)

lemma ex_sample:
  "random_sample (\<lambda>i. i) [a, b, c] 2 = Inr [a, b]"
  by (simp add: random_sample_def numeral_2_eq_2 Let_def)

lemma ex_new_quiz_id: "new_quiz_id ex_db = 5"
  by (simp add: new_quiz_id_def ex_db_def ex_quiz_def)

text \<open>
  Claim C3, as the code has it. A start request that asks for more questions than the source
  has for the posted difficulty never creates a quiz and is never answered with the
  redirect to the quiz: the database and the session are returned as they were. When the
  request is well formed (in particular, a count from 1 to 50), the answer carries the exact
  number of available questions: in the form error when there are some, in the message
  when there are none.
\<close>

theorem insufficient_questions_no_quiz:
  assumes "sp_num_questions post = Posted n"
    and "int (length (get_questions_for_source db (route_source route) (sp_difficulty post))) < n"
  shows "fst (start_url rnd db sess user route now (Start_POST post)) = (db, sess)
       \<and> (\<forall>q. snd (start_url rnd db sess user route now (Start_POST post))
                 \<noteq> Inr (Start_redirect_take_quiz q))
       \<and> (well_formed_post db route post n \<longrightarrow>
            snd (start_url rnd db sess user route now (Start_POST post)) =
              (if length (get_questions_for_source db (route_source route) (sp_difficulty post)) = 0
               then Inr (render_start_quiz db (route_source route) []
                           [Only_questions_available 0])
               else Inr (render_start_quiz db (route_source route)
                           [availability_error route
                              (length (get_questions_for_source db (route_source route)
                                         (sp_difficulty post)))
                              (sp_difficulty post)] [])))"
proof -
  have a: "fst (start_url rnd db sess user route now (Start_POST post)) = (db, sess)
       \<and> (\<forall>q. snd (start_url rnd db sess user route now (Start_POST post))
                 \<noteq> Inr (Start_redirect_take_quiz q))"
  proof (cases route)
    case (Start_chapter c)
    with assms(2) have l: "int (length (get_questions_for_source db (Chapter_source c) (sp_difficulty post))) < n"
      by simp
    show ?thesis unfolding Start_chapter start_url.simps start_quiz_def
      using start_for_insufficient[OF assms(1) l] by simp
  next
    case (Start_book b)
    with assms(2) have l: "int (length (get_questions_for_source db (Book_source b) (sp_difficulty post))) < n"
      by simp
    show ?thesis unfolding Start_book start_url.simps start_book_quiz_def
      using start_for_insufficient[OF assms(1) l] by simp
  qed
  have b: "snd (start_url rnd db sess user route now (Start_POST post)) =
              (if length (get_questions_for_source db (route_source route) (sp_difficulty post)) = 0
               then Inr (render_start_quiz db (route_source route) []
                           [Only_questions_available 0])
               else Inr (render_start_quiz db (route_source route)
                           [availability_error route
                              (length (get_questions_for_source db (route_source route)
                                         (sp_difficulty post)))
                              (sp_difficulty post)] []))"
    if wf: "well_formed_post db route post n"
  proof -
    from start_url_well_formed[OF wf, of rnd sess user now] obtain dur where
      s: "start_url rnd db sess user route now (Start_POST post) =
       (if 0 < length (get_questions_for_source db (route_source route) (sp_difficulty post))
           \<and> int (length (get_questions_for_source db (route_source route) (sp_difficulty post))) < n
        then ((db, sess),
              Inr (render_start_quiz db (route_source route)
                     [availability_error route
                        (length (get_questions_for_source db (route_source route) (sp_difficulty post)))
                        (sp_difficulty post)] []))
        else create_and_sample rnd db sess user (route_source route) now n (sp_difficulty post) dur)"
      by (elim exE conjE)
    show ?thesis unfolding s using assms(2) create_and_sample_insufficient[OF assms(2)]
      by (cases "length (get_questions_for_source db (route_source route) (sp_difficulty post)) = 0")
         simp_all
  qed
  from a b show ?thesis by blast
qed

theorem insufficient_questions_no_quiz_witness:
  "sp_num_questions (ex_post ''chapter'' 1 5 ''all'') = Posted 5
   \<and> int (length (get_questions_for_source ex_db (route_source (Start_chapter 1))
                    (sp_difficulty (ex_post ''chapter'' 1 5 ''all'')))) < 5
   \<and> well_formed_post ex_db (Start_chapter 1) (ex_post ''chapter'' 1 5 ''all'') 5
   \<and> fst (start_url (\<lambda>i. i) ex_db ex_session 7 (Start_chapter 1) 0
             (Start_POST (ex_post ''chapter'' 1 5 ''all''))) = (ex_db, ex_session)
   \<and> snd (start_url (\<lambda>i. i) ex_db ex_session 7 (Start_chapter 1) 0
             (Start_POST (ex_post ''chapter'' 1 5 ''all''))) =
       Inr (render_start_quiz ex_db (Chapter_source 1) [Only_available_in_chapter 3 None] [])"
proof -
  have d: "sp_difficulty (ex_post ''chapter'' 1 5 ''all'') = ''all''"
    and n: "sp_num_questions (ex_post ''chapter'' 1 5 ''all'') = Posted 5"
    by (simp_all add: ex_post_def)
  have len: "length (get_questions_for_source ex_db (route_source (Start_chapter 1)) ''all'') = 3"
    by (simp add: ex_db_def ex_questions_def filter_difficulty_def)
  have l: "int (length (get_questions_for_source ex_db (route_source (Start_chapter 1))
                    (sp_difficulty (ex_post ''chapter'' 1 5 ''all'')))) < 5"
    unfolding d len by simp
  have w: "well_formed_post ex_db (Start_chapter 1) (ex_post ''chapter'' 1 5 ''all'') 5"
    by (rule ex_post_well_formed) simp_all
  note t = insufficient_questions_no_quiz[OF n l, of "\<lambda>i. i" ex_session 7 0, unfolded d len]
  from t have f: "fst (start_url (\<lambda>i. i) ex_db ex_session 7 (Start_chapter 1) 0
             (Start_POST (ex_post ''chapter'' 1 5 ''all''))) = (ex_db, ex_session)"
    by (elim conjE)
  from t w have "snd (start_url (\<lambda>i. i) ex_db ex_session 7 (Start_chapter 1) 0
             (Start_POST (ex_post ''chapter'' 1 5 ''all''))) =
       (if (3::nat) = 0
        then Inr (render_start_quiz ex_db (route_source (Start_chapter 1)) []
                    [Only_questions_available 0])
        else Inr (render_start_quiz ex_db (route_source (Start_chapter 1))
                    [availability_error (Start_chapter 1) 3 ''all''] []))"
    by (elim conjE) (erule mp)
  then have s: "snd (start_url (\<lambda>i. i) ex_db ex_session 7 (Start_chapter 1) 0
             (Start_POST (ex_post ''chapter'' 1 5 ''all''))) =
       Inr (render_start_quiz ex_db (Chapter_source 1) [Only_available_in_chapter 3 None] [])"
    by (simp add: availability_error_def)
  from n l w f s show ?thesis by (intro conjI)
qed

text \<open>
  Claim C3 as stated fails for a count above the maximum of the form field: with 51
  questions requested from chapter 1, which has 3, the form is rejected by the field
  validation alone and the answer carries no number of available questions.
\<close>

theorem count_above_maximum_carries_no_count:
  "int (length (get_questions_for_source ex_db (Chapter_source 1) ''all'')) < 51
   \<and> start_url (\<lambda>i. i) ex_db ex_session 7 (Start_chapter 1) 0
        (Start_POST (ex_post ''chapter'' 1 51 ''all'')) =
       ((ex_db, ex_session),
        Inr (render_start_quiz ex_db (Chapter_source 1) [Invalid_field ''num_questions''] []))"
proof -
  have cf: "clean_fields [Suc 0] (books ex_db) (ex_post ''chapter'' (Suc 0) 51 ''all'') =
      (\<lparr> cd_quiz_type = Some ''chapter'', cd_chapter = Some (Suc 0), cd_book = None,
          cd_num_questions = None, cd_difficulty = Some ''all'',
          cd_duration_minutes = Some ''30'' \<rparr>, [Invalid_field ''num_questions''])"
    by (simp add: clean_fields_def clean_choice_def clean_model_choice_def clean_num_questions_def
          ex_post_def duration_choices_def)
  have fc: "full_clean ex_db [Suc 0] (books ex_db) (ex_post ''chapter'' (Suc 0) 51 ''all'') =
      (\<lparr> cd_quiz_type = Some ''chapter'', cd_chapter = Some (Suc 0), cd_book = None,
          cd_num_questions = None, cd_difficulty = Some ''all'',
          cd_duration_minutes = Some ''30'' \<rparr>, [Invalid_field ''num_questions''])"
    unfolding full_clean_def cf by (simp add: clean_def Let_def)
  have c: "Suc 0 \<in> set (map chapter_id (chapters ex_db))" by (simp add: ex_db_def)
  have "start_url (\<lambda>i. i) ex_db ex_session 7 (Start_chapter (Suc 0)) 0
        (Start_POST (ex_post ''chapter'' (Suc 0) 51 ''all'')) =
       ((ex_db, ex_session),
        Inr (render_start_quiz ex_db (Chapter_source (Suc 0)) [Invalid_field ''num_questions''] []))"
    unfolding start_url.simps start_quiz_def start_for_def start_request.case fc prod.case
    using c by simp
  then show ?thesis by (simp add: ex_db_def ex_questions_def filter_difficulty_def)
qed

text \<open>
  Claim C4. When the source has at least \<open>k\<close> questions for the difficulty, the sample is a
  list of exactly \<open>k\<close> questions with pairwise distinct ids, all among the eligible
  questions and none taken twice. The eligible questions are the questions of the scope with
  the requested difficulty, all of them for \<open>all\<close>: for a chapter, the questions whose
  chapter it is; for a book, the questions whose chapter is a chapter of the book. So every
  sampled question is a question of the database, of the scope and of the requested
  difficulty. A well-formed start request for \<open>k\<close> questions stores the ids of that sample,
  in that order, in the session of the new quiz. Question ids are primary keys.
\<close>

theorem sample_distinct_from_eligible:
  assumes "distinct (map question_id (questions db))"
    and "k \<le> length (get_questions_for_source db src d)"
  shows "\<exists>qs. random_sample rnd (get_questions_for_source db src d) (int k) = Inr qs
           \<and> length qs = k
           \<and> distinct (map question_id qs)
           \<and> set qs \<subseteq> set (get_questions_for_source db src d)
           \<and> mset qs \<subseteq># mset (get_questions_for_source db src d)
           \<and> set (get_questions_for_source db src d) =
               {q \<in> set (get_questions_for_source db src ''all''). d = ''all'' \<or> difficulty q = d}
           \<and> set (get_questions_for_source db src d) =
               {q \<in> set (questions db).
                  (case src of Chapter_source c \<Rightarrow> question_chapter q = c
                         | Book_source b \<Rightarrow>
                             (\<exists>ch\<in>set (chapters db).
                                chapter_id ch = question_chapter q \<and> chapter_book ch = b)
                         | No_source \<Rightarrow> False)
                  \<and> (d = ''all'' \<or> difficulty q = d)}
           \<and> (\<forall>q\<in>set qs.
                  q \<in> set (questions db)
                  \<and> (case src of Chapter_source c \<Rightarrow> question_chapter q = c
                         | Book_source b \<Rightarrow>
                             (\<exists>ch\<in>set (chapters db).
                                chapter_id ch = question_chapter q \<and> chapter_book ch = b)
                         | No_source \<Rightarrow> False)
                  \<and> (d = ''all'' \<or> difficulty q = d))
           \<and> (src = route_source route \<and> well_formed_post db route post (int k)
                \<and> sp_difficulty post = d \<longrightarrow>
              (\<exists>dur. start_url rnd db sess user route now (Start_POST post) =
                 ((db\<lparr> quizzes := quizzes db @ [create_quiz db user src k dur now] \<rparr>,
                   sess\<lparr> quiz_questions :=
                           (quiz_questions sess)(new_quiz_id db \<mapsto> map question_id qs),
                         quiz_current := (quiz_current sess)(new_quiz_id db \<mapsto> 0) \<rparr>),
                  Inr (Start_redirect_take_quiz (new_quiz_id db)))))"
proof -
  let ?pop = "get_questions_for_source db src d"
  let ?qs = "sample_pool rnd 0 ?pop k"
  from sample_pool_mset[OF assms(2), of rnd 0]
  have l: "length ?qs = k" and m: "mset ?qs \<subseteq># mset ?pop" by auto
  have r: "random_sample rnd ?pop (int k) = Inr ?qs"
    using assms(2) by (simp add: random_sample_def)
  have dq: "distinct (map question_id ?qs)"
    using distinct_map_mset_subseteq[OF m distinct_get_questions[OF assms(1)]] .
  have s: "set ?qs \<subseteq> set ?pop" using m by (metis set_mset_mono set_mset_mset)
  have v: "\<exists>dur. start_url rnd db sess user route now (Start_POST post) =
                 ((db\<lparr> quizzes := quizzes db @ [create_quiz db user src k dur now] \<rparr>,
                   sess\<lparr> quiz_questions :=
                           (quiz_questions sess)(new_quiz_id db \<mapsto> map question_id ?qs),
                         quiz_current := (quiz_current sess)(new_quiz_id db \<mapsto> 0) \<rparr>),
                  Inr (Start_redirect_take_quiz (new_quiz_id db)))"
    if h: "src = route_source route" "well_formed_post db route post (int k)" "sp_difficulty post = d"
  proof -
    from start_url_well_formed[OF h(2), of rnd sess user now] obtain dur where
      su: "start_url rnd db sess user route now (Start_POST post) =
       (if 0 < length (get_questions_for_source db (route_source route) (sp_difficulty post))
           \<and> int (length (get_questions_for_source db (route_source route) (sp_difficulty post))) < int k
        then ((db, sess),
              Inr (render_start_quiz db (route_source route)
                     [availability_error route
                        (length (get_questions_for_source db (route_source route) (sp_difficulty post)))
                        (sp_difficulty post)] []))
        else create_and_sample rnd db sess user (route_source route) now (int k) (sp_difficulty post) dur)"
      by (elim exE conjE)
    have i: "quiz_id (create_quiz db user src k dur now) = new_quiz_id db"
      by (simp add: create_quiz_def)
    have "start_url rnd db sess user route now (Start_POST post) =
                 ((db\<lparr> quizzes := quizzes db @ [create_quiz db user src k dur now] \<rparr>,
                   sess\<lparr> quiz_questions :=
                           (quiz_questions sess)(new_quiz_id db \<mapsto> map question_id ?qs),
                         quiz_current := (quiz_current sess)(new_quiz_id db \<mapsto> 0) \<rparr>),
                  Inr (Start_redirect_take_quiz (new_quiz_id db)))"
      unfolding su h(1)[symmetric] h(3) using assms(2) r i
      by (simp add: create_and_sample_def Let_def)
    then show ?thesis ..
  qed
  have sq: "\<forall>q\<in>set ?qs.
                  q \<in> set (questions db)
                  \<and> (case src of Chapter_source c \<Rightarrow> question_chapter q = c
                         | Book_source b \<Rightarrow>
                             (\<exists>ch\<in>set (chapters db).
                                chapter_id ch = question_chapter q \<and> chapter_book ch = b)
                         | No_source \<Rightarrow> False)
                  \<and> (d = ''all'' \<or> difficulty q = d)"
    using s unfolding set_get_questions_scope[of db src d] by blast
  show ?thesis
  proof (intro exI[of _ ?qs] conjI)
    show "src = route_source route \<and> well_formed_post db route post (int k)
            \<and> sp_difficulty post = d \<longrightarrow>
          (\<exists>dur. start_url rnd db sess user route now (Start_POST post) =
             ((db\<lparr> quizzes := quizzes db @ [create_quiz db user src k dur now] \<rparr>,
               sess\<lparr> quiz_questions :=
                       (quiz_questions sess)(new_quiz_id db \<mapsto> map question_id ?qs),
                     quiz_current := (quiz_current sess)(new_quiz_id db \<mapsto> 0) \<rparr>),
              Inr (Start_redirect_take_quiz (new_quiz_id db))))"
      using v by blast
  qed (fact r l dq s m set_get_questions[of db src d] set_get_questions_scope[of db src d] sq)+
qed

theorem sample_distinct_from_eligible_witness:
  "distinct (map question_id (questions ex_db))
   \<and> 2 \<le> length (get_questions_for_source ex_db (Chapter_source 1) ''all'')
   \<and> well_formed_post ex_db (Start_chapter 1) (ex_post ''chapter'' 1 2 ''all'') 2
   \<and> random_sample (\<lambda>i. i) (get_questions_for_source ex_db (Chapter_source 1) ''all'') 2
       = Inr [ex_questions ! 0, ex_questions ! 1]
   \<and> ex_questions ! 0 \<in> set (questions ex_db) \<and> question_chapter (ex_questions ! 0) = 1
   \<and> ex_questions ! 1 \<in> set (questions ex_db) \<and> question_chapter (ex_questions ! 1) = 1
   \<and> set (get_questions_for_source ex_db (Chapter_source 1) ''all'')
       = {q \<in> set ex_questions. question_chapter q = 1}
   \<and> snd (start_url (\<lambda>i. i) ex_db ex_session 7 (Start_chapter 1) 0
             (Start_POST (ex_post ''chapter'' 1 2 ''all''))) = Inr (Start_redirect_take_quiz 5)
   \<and> quiz_questions (snd (fst (start_url (\<lambda>i. i) ex_db ex_session 7 (Start_chapter 1) 0
             (Start_POST (ex_post ''chapter'' 1 2 ''all''))))) 5 = Some [1, 2]"
proof -
  have h1: "distinct (map question_id (questions ex_db))"
    by (simp add: ex_db_def ex_questions_def)
  have h2: "2 \<le> length (get_questions_for_source ex_db (Chapter_source 1) ''all'')"
    by (simp add: ex_db_def ex_questions_def filter_difficulty_def)
  have w: "well_formed_post ex_db (Start_chapter 1) (ex_post ''chapter'' 1 2 ''all'') (int 2)"
    using ex_post_well_formed[of 2 1 "''all''"] by simp
  have s: "Chapter_source 1 = route_source (Start_chapter 1)"
    "sp_difficulty (ex_post ''chapter'' 1 2 ''all'') = ''all''"
    by (simp_all add: ex_post_def)
  have r: "random_sample (\<lambda>i. i) (get_questions_for_source ex_db (Chapter_source 1) ''all'') (int 2)
       = Inr [ex_questions ! 0, ex_questions ! 1]"
  proof -
    have "get_questions_for_source ex_db (Chapter_source 1) ''all'' =
            [ex_questions ! 0, ex_questions ! 1, ex_questions ! 2]"
      by (simp add: ex_db_def ex_questions_def filter_difficulty_def)
    then show ?thesis using ex_sample by simp
  qed
  have e: "questions ex_db = ex_questions" by (simp add: ex_db_def)
  from sample_distinct_from_eligible[OF h1 h2, where rnd = "\<lambda>i. i" and route = "Start_chapter 1"
         and post = "ex_post ''chapter'' 1 2 ''all''" and sess = ex_session and user = 7
         and now = 0]
  obtain qs dur where
    q: "random_sample (\<lambda>i. i) (get_questions_for_source ex_db (Chapter_source 1) ''all'') (int 2) = Inr qs"
    and g: "set (get_questions_for_source ex_db (Chapter_source 1) ''all'')
              = {q \<in> set ex_questions. question_chapter q = 1}"
    and c: "\<forall>q\<in>set qs. q \<in> set (questions ex_db) \<and> question_chapter q = 1"
    and u: "start_url (\<lambda>i. i) ex_db ex_session 7 (Start_chapter 1) 0
              (Start_POST (ex_post ''chapter'' 1 2 ''all'')) =
       ((ex_db\<lparr> quizzes := quizzes ex_db @ [create_quiz ex_db 7 (Chapter_source 1) 2 dur 0] \<rparr>,
         ex_session\<lparr> quiz_questions :=
                       (quiz_questions ex_session)(new_quiz_id ex_db \<mapsto> map question_id qs),
                     quiz_current := (quiz_current ex_session)(new_quiz_id ex_db \<mapsto> 0) \<rparr>),
        Inr (Start_redirect_take_quiz (new_quiz_id ex_db)))"
    using w s unfolding e by (elim exE conjE) (simp, blast)
  from q r have qs: "qs = [ex_questions ! 0, ex_questions ! 1]" by simp
  have m: "map question_id [ex_questions ! 0, ex_questions ! 1] = [1, 2]"
    by (simp add: ex_questions_def)
  from c have c': "ex_questions ! 0 \<in> set (questions ex_db)"
    "question_chapter (ex_questions ! 0) = 1"
    "ex_questions ! 1 \<in> set (questions ex_db)"
    "question_chapter (ex_questions ! 1) = 1"
    unfolding qs by simp_all
  have t: "snd (start_url (\<lambda>i. i) ex_db ex_session 7 (Start_chapter 1) 0
             (Start_POST (ex_post ''chapter'' 1 2 ''all''))) = Inr (Start_redirect_take_quiz 5)"
    "quiz_questions (snd (fst (start_url (\<lambda>i. i) ex_db ex_session 7 (Start_chapter 1) 0
             (Start_POST (ex_post ''chapter'' 1 2 ''all''))))) 5 = Some [1, 2]"
    unfolding u qs m ex_new_quiz_id by simp_all
  have r': "random_sample (\<lambda>i. i) (get_questions_for_source ex_db (Chapter_source 1) ''all'') 2
       = Inr [ex_questions ! 0, ex_questions ! 1]"
    using r by simp
  have w': "well_formed_post ex_db (Start_chapter 1) (ex_post ''chapter'' 1 2 ''all'') 2"
    using w by simp
  from h1 h2 w' r' c' g t show ?thesis by (intro conjI)
qed

end
